theory Spec2Isabelle
  imports Main "HOL-Library.Sublist"
begin

section \<open>Values shared by the examples\<close>

subsection \<open>Numbers in template strings\<close>

text \<open>
  The template literals of the sources interpolate numbers (\<^verbatim>\<open>${maxAttempts}\<close>,
  \<^verbatim>\<open>${res.status}\<close>, \<^verbatim>\<open>${i + 1}\<close>). The numbers that occur there are integers, modelled
  as \<^typ>\<open>int\<close> and \<^typ>\<open>nat\<close>; their rendering is the decimal one.
\<close>

definition digit :: "nat \<Rightarrow> char" where
  "digit d = ''0123456789'' ! d"

fun show_nat :: "nat \<Rightarrow> string" where
  "show_nat n = (if n < 10 then [digit n] else show_nat (n div 10) @ [digit (n mod 10)])"

declare show_nat.simps [simp del]

definition show_int :: "int \<Rightarrow> string" where
  "show_int z = (if z < 0 then CHR ''-'' # show_nat (nat (- z)) else show_nat (nat z))"

subsection \<open>Exceptions\<close>

text \<open>
  \<^verbatim>\<open>throw new Error(msg)\<close> is \<open>Error msg\<close>. \<open>TypeError\<close> is the engine's error for a property
  read on \<^verbatim>\<open>null\<close> (its wording is the engine's own). \<open>Thrown\<close> stands for whatever the
  environment raises: a rejected \<^verbatim>\<open>fetch\<close>, a body that is not JSON, an exception of a callback.
\<close>

datatype exn = Error string | TypeError | Thrown string

subsection \<open>Observable effects\<close>

text \<open>
  A run of a poller is observed as the list of its effects, in order: a request for the
  status, a call of the progress callback with the status it was given, a timed sleep with
  its duration in milliseconds, a line written to the console.
\<close>

datatype 'r event = Fetch | Update 'r | Sleep int | Log string

definition fetches :: "'r event list \<Rightarrow> nat" where
  "fetches tr = length (filter (\<lambda>e. e = Fetch) tr)"

fun is_Sleep :: "'r event \<Rightarrow> bool" where
  "is_Sleep (Sleep d) = True"
| "is_Sleep _ = False"

definition sleeps :: "'r event list \<Rightarrow> nat" where
  "sleeps tr = length (filter is_Sleep tr)"

fun updates :: "'r event list \<Rightarrow> 'r list" where
  "updates [] = []"
| "updates (Update r # tr) = r # updates tr"
| "updates (_ # tr) = updates tr"

fun durations :: "'r event list \<Rightarrow> int list" where
  "durations [] = []"
| "durations (Sleep d # tr) = d # durations tr"
| "durations (_ # tr) = durations tr"

section \<open>The status pollers with a progress callback\<close>

text \<open>
  \<^verbatim>\<open>origin-subsidy/src/relay/status-poller.ts\<close> and \<^verbatim>\<open>byo-eoa-permit/lib/relay.ts\<close>.
  The declared fields of \<^verbatim>\<open>RelayStatusResponse\<close>:
\<close>

record RelayStatusResponse =
  status :: string
  requestId :: string
  inTxHashes :: "string list option"
  outTxHashes :: "string list option"
  originChainId :: "int option"
  destinationChainId :: "int option"

text \<open>
  \<^verbatim>\<open>getStatus\<close> is the environment of the loop: \<open>getStatus rid i\<close> is the outcome of the call
  made on iteration \<open>i\<close> (counted from 0), either the exception it throws or the status it
  resolves to. The optional callback \<^verbatim>\<open>onUpdate\<close> is \<open>None\<close> when the caller passes none;
  otherwise \<open>f i s\<close> tells whether its call on iteration \<open>i\<close> with status \<open>s\<close> returns
  (\<open>None\<close>) or throws (\<open>Some e\<close>).
\<close>

type_synonym 'r getter = "string \<Rightarrow> nat \<Rightarrow> exn + 'r"
type_synonym 'r callback = "(nat \<Rightarrow> 'r \<Rightarrow> exn option) option"

text \<open>\<^verbatim>\<open>onUpdate?.(status)\<close>: the effect, and the exception if the callback throws.\<close>

definition notify :: "'r callback \<Rightarrow> 'r \<Rightarrow> 'r event list" where
  "notify onUpdate s = (case onUpdate of None \<Rightarrow> [] | Some f \<Rightarrow> [Update s])"

definition raised :: "'r callback \<Rightarrow> nat \<Rightarrow> 'r \<Rightarrow> exn option" where
  "raised onUpdate i s = (case onUpdate of None \<Rightarrow> None | Some f \<Rightarrow> f i s)"

text \<open>
  The two loops are the same text up to the terminal set and the wording of the timeout
  message, which are the parameters \<open>TERMINAL\<close> and \<open>timeout\<close> here:
  \<^verbatim>\<open>
  for (let i = 0; i < maxAttempts; i++) {
    const status = await getStatus(requestId);
    onUpdate?.(status);
    if (TERMINAL.has(status.status)) return status;
    await new Promise((r) => setTimeout(r, intervalMs));
  }
  throw new Error(`Timed out after ${maxAttempts} attempts`);
  \<close>
  The result is the list of effects of the run and its outcome. \<^verbatim>\<open>maxAttempts\<close> and
  \<^verbatim>\<open>intervalMs\<close> are taken to be integers, the counter \<open>i\<close> a natural number, and the
  status that \<^verbatim>\<open>getStatus\<close> resolves to is taken at its declared type, so that
  \<^verbatim>\<open>status.status\<close> is a string.
\<close>

function poll_loop ::
  "string set \<Rightarrow> (int \<Rightarrow> string) \<Rightarrow> RelayStatusResponse getter \<Rightarrow> string \<Rightarrow>
   RelayStatusResponse callback \<Rightarrow> int \<Rightarrow> int \<Rightarrow> nat \<Rightarrow>
   RelayStatusResponse event list \<times> (exn + RelayStatusResponse)" where
  "poll_loop TERMINAL timeout getStatus rid onUpdate maxAttempts intervalMs i =
     (if int i < maxAttempts then
        (case getStatus rid i of
           Inl e \<Rightarrow> ([Fetch], Inl e)
         | Inr s \<Rightarrow>
             (case raised onUpdate i s of
                Some e \<Rightarrow> (Fetch # notify onUpdate s, Inl e)
              | None \<Rightarrow>
                  if status s \<in> TERMINAL then (Fetch # notify onUpdate s, Inr s)
                  else
                    (let (tr, out) =
                       poll_loop TERMINAL timeout getStatus rid onUpdate maxAttempts intervalMs (Suc i)
                     in (Fetch # notify onUpdate s @ Sleep intervalMs # tr, out))))
      else ([], Inl (Error (timeout maxAttempts))))"
  by pat_completeness auto
termination
  by (relation "measure (\<lambda>(T, t, g, r, u, m, d, i). nat (m - int i))") auto

declare poll_loop.simps [simp del]

definition default :: "'a \<Rightarrow> 'a option \<Rightarrow> 'a" where
  "default d x = (case x of None \<Rightarrow> d | Some v \<Rightarrow> v)"

definition TERMINAL :: "string set" where
  "TERMINAL = {''success'', ''failure'', ''refund''}"

definition TERMINAL_STATES :: "string set" where
  "TERMINAL_STATES = {''success'', ''failure'', ''refunded''}"

text \<open>
  \<^verbatim>\<open>pollStatus(requestId, onUpdate?, maxAttempts = 60, intervalMs = 5000)\<close> of origin-subsidy;
  an omitted argument is \<open>None\<close> and takes the default.
\<close>

definition pollStatus_origin ::
  "RelayStatusResponse getter \<Rightarrow> string \<Rightarrow> RelayStatusResponse callback \<Rightarrow>
   int option \<Rightarrow> int option \<Rightarrow> RelayStatusResponse event list \<times> (exn + RelayStatusResponse)" where
  "pollStatus_origin getStatus rid onUpdate maxAttempts intervalMs =
     poll_loop TERMINAL (\<lambda>m. ''Timed out after '' @ show_int m @ '' attempts'')
       getStatus rid onUpdate
       (default 60 maxAttempts) (default 5000 intervalMs) 0"

text \<open>\<^verbatim>\<open>pollStatus(requestId, onUpdate?, maxAttempts = 100, intervalMs = 3000)\<close> of byo-eoa-permit.\<close>

definition pollStatus_byo ::
  "RelayStatusResponse getter \<Rightarrow> string \<Rightarrow> RelayStatusResponse callback \<Rightarrow>
   int option \<Rightarrow> int option \<Rightarrow> RelayStatusResponse event list \<times> (exn + RelayStatusResponse)" where
  "pollStatus_byo getStatus rid onUpdate maxAttempts intervalMs =
     poll_loop TERMINAL_STATES (\<lambda>m. ''Polling timed out after '' @ show_int m @ '' attempts'')
       getStatus rid onUpdate
       (default 100 maxAttempts) (default 3000 intervalMs) 0"

text \<open>
  The runs in which iterations \<open>0, \<dots>, n - 1\<close> all go round the loop: each fetches a status
  outside the set \<open>T\<close> and the callback, if any, returns. \<open>rounds\<close> lists the effects
  of the iterations \<open>i, \<dots>, n - 1\<close> of such a run.
\<close>

definition keeps_polling ::
  "string set \<Rightarrow> 'a RelayStatusResponse_scheme getter \<Rightarrow> string \<Rightarrow>
   'a RelayStatusResponse_scheme callback \<Rightarrow> nat \<Rightarrow> bool" where
  "keeps_polling T getStatus rid onUpdate n =
     (\<forall>j<n. case getStatus rid j of
               Inl e \<Rightarrow> False
             | Inr s \<Rightarrow> status s \<notin> T \<and> raised onUpdate j s = None)"

definition rounds ::
  "RelayStatusResponse getter \<Rightarrow> string \<Rightarrow> RelayStatusResponse callback \<Rightarrow> int \<Rightarrow>
   nat \<Rightarrow> nat \<Rightarrow> RelayStatusResponse event list" where
  "rounds getStatus rid onUpdate intervalMs i n =
     concat (map (\<lambda>j. Fetch # notify onUpdate (projr (getStatus rid j)) @ [Sleep intervalMs])
                 [i..<n])"

text \<open>The statuses that the calls \<open>i, \<dots>, n - 1\<close> of \<^verbatim>\<open>getStatus\<close> resolved to.\<close>

definition fetched :: "'r getter \<Rightarrow> string \<Rightarrow> nat \<Rightarrow> nat \<Rightarrow> 'r list" where
  "fetched getStatus rid i n =
     concat (map (\<lambda>j. case getStatus rid j of Inl e \<Rightarrow> [] | Inr s \<Rightarrow> [s]) [i..<n])"

section \<open>The status poller of the command-line examples\<close>

text \<open>
  \<^verbatim>\<open>relay.ts\<close> of the 7702 and 4337 scripts (\<^verbatim>\<open>src/unnamed/part_006\<close>). The loop reads the
  parsed body untyped; the fields it reads are \<^verbatim>\<open>status\<close> and \<^verbatim>\<open>txHashes\<close>. It neither
  checks \<^verbatim>\<open>res.ok\<close> nor takes a callback, and its bounds are the literals 60 and 5000:
  \<^verbatim>\<open>
  console.log(`\nPolling request ${requestId}...`);
  for (let i = 0; i < 60; i++) {
    const res = await fetch(...);
    const status = await res.json();
    console.log(`  [${i + 1}] ${status.status}`);
    if (status.status === "success") {
      console.log(`  Tx: ${status.txHashes?.[0] ?? "N/A"}`);
      return;
    }
    if (status.status === "failure" || status.status === "refund") {
      throw new Error(`Relay failed: ${status.status}`);
    }
    await new Promise((r) => setTimeout(r, 5_000));
  }
  throw new Error("Polling timed out");
  \<close>
  \<open>fetchStatus rid i\<close> is the outcome of the fetch and the parse of iteration \<open>i\<close>: the
  exception when the fetch is rejected or the body is not a JSON object, and otherwise the
  parsed body, whose \<^verbatim>\<open>status\<close> is taken to be a string. The parsed body is the reply of
  the endpoint that the typed pollers read, so it is modelled as \<^verbatim>\<open>RelayStatusResponse\<close>
  extended by the field \<^verbatim>\<open>txHashes\<close>.
\<close>

record ScriptStatus = RelayStatusResponse +
  txHashes :: "string list option"

definition attempt_line :: "nat \<Rightarrow> ScriptStatus \<Rightarrow> unit event" where
  "attempt_line i s = Log (''  ['' @ show_nat (i + 1) @ ''] '' @ status s)"

definition tx_line :: "ScriptStatus \<Rightarrow> unit event" where
  "tx_line s = Log (''  Tx: '' @ (case txHashes s of Some (h # _) \<Rightarrow> h | _ \<Rightarrow> ''N/A''))"

function script_loop ::
  "ScriptStatus getter \<Rightarrow> string \<Rightarrow> nat \<Rightarrow> unit event list \<times> (exn + unit)" where
  "script_loop fetchStatus rid i =
     (if i < 60 then
        (case fetchStatus rid i of
           Inl e \<Rightarrow> ([Fetch], Inl e)
         | Inr s \<Rightarrow>
             if status s = ''success'' then
               ([Fetch, attempt_line i s, tx_line s], Inr ())
             else if status s = ''failure'' \<or> status s = ''refund'' then
               ([Fetch, attempt_line i s], Inl (Error (''Relay failed: '' @ status s)))
             else
               (let (tr, out) = script_loop fetchStatus rid (Suc i)
                in (Fetch # attempt_line i s # Sleep 5000 # tr, out)))
      else ([], Inl (Error ''Polling timed out'')))"
  by pat_completeness auto
termination
  by (relation "measure (\<lambda>(g, r, i). 60 - i)") auto

declare script_loop.simps [simp del]

definition pollStatus_script ::
  "ScriptStatus getter \<Rightarrow> string \<Rightarrow> unit event list \<times> (exn + unit)" where
  "pollStatus_script fetchStatus rid =
     (let (tr, out) = script_loop fetchStatus rid 0
      in (Log (CHR 0x0A # ''Polling request '' @ rid @ ''...'') # tr, out))"

definition script_rounds :: "ScriptStatus getter \<Rightarrow> string \<Rightarrow> nat \<Rightarrow> nat \<Rightarrow> unit event list" where
  "script_rounds fetchStatus rid i n =
     concat (map (\<lambda>j. [Fetch, attempt_line j (projr (fetchStatus rid j)), Sleep 5000]) [i..<n])"

section \<open>The helpers of the relay API\<close>

subsection \<open>Responses and parsed bodies\<close>

text \<open>
  A parsed JSON body. \<open>JObj\<close> lists the properties of the parsed object, each key once.
  Numbers are restricted to the integers.
\<close>

datatype json =
    JNull
  | JBool bool
  | JNum int
  | JStr string
  | JArr "json list"
  | JObj "(string \<times> json) list"

text \<open>
  What the helpers read of the \<^verbatim>\<open>Response\<close> that \<^verbatim>\<open>fetch\<close> resolved to: \<^verbatim>\<open>res.ok\<close>,
  \<^verbatim>\<open>res.status\<close>, \<^verbatim>\<open>res.statusText\<close>, the body as \<^verbatim>\<open>res.text()\<close> gives it, and the outcome
  of \<^verbatim>\<open>res.json()\<close>, which rejects when the body is not JSON.
\<close>

record Response =
  res_ok :: bool
  res_status :: nat
  res_statusText :: string
  res_text :: string
  res_json :: "exn + json"

text \<open>\<^verbatim>\<open>await res.json().catch(() => ({}))\<close>\<close>

definition json_or_empty :: "Response \<Rightarrow> json" where
  "json_or_empty res = (case res_json res of Inl e \<Rightarrow> JObj [] | Inr j \<Rightarrow> j)"

text \<open>
  \<^verbatim>\<open>JSON.stringify\<close> and the conversion of a value to a string inside a template literal
  belong to the platform; the helpers below take them as the parameters \<open>stringify\<close> and
  \<open>toStr\<close>.
\<close>

subsection \<open>origin-subsidy: \<^verbatim>\<open>src/relay/api.ts\<close>\<close>

text \<open>
  \<^verbatim>\<open>
  if (!res.ok) {
    const err = await res.json().catch(() => ({}));
    throw new Error(`Quote failed (${res.status}): ${JSON.stringify(err)}`);
  }
  return res.json();
  \<close>
  and the same with \<^verbatim>\<open>Execute failed\<close> and \<^verbatim>\<open>Status check failed\<close>.
\<close>

definition getQuote_origin :: "(json \<Rightarrow> string) \<Rightarrow> Response \<Rightarrow> exn + json" where
  "getQuote_origin stringify res =
     (if \<not> res_ok res then
        Inl (Error (''Quote failed ('' @ show_nat (res_status res) @ ''): ''
                    @ stringify (json_or_empty res)))
      else res_json res)"

definition execute_origin :: "(json \<Rightarrow> string) \<Rightarrow> Response \<Rightarrow> exn + json" where
  "execute_origin stringify res =
     (if \<not> res_ok res then
        Inl (Error (''Execute failed ('' @ show_nat (res_status res) @ ''): ''
                    @ stringify (json_or_empty res)))
      else res_json res)"

definition getStatus_origin :: "(json \<Rightarrow> string) \<Rightarrow> Response \<Rightarrow> exn + json" where
  "getStatus_origin stringify res =
     (if \<not> res_ok res then
        Inl (Error (''Status check failed ('' @ show_nat (res_status res) @ ''): ''
                    @ stringify (json_or_empty res)))
      else res_json res)"

subsection \<open>byo-eoa-permit: \<^verbatim>\<open>lib/relay.ts\<close>\<close>

text \<open>
  \<^verbatim>\<open>
  if (!res.ok) {
    const err = await res.json().catch(() => ({}));
    const msg = err.message || err.error || JSON.stringify(err) || res.statusText;
    throw new Error(`Quote failed (${res.status}): ${msg}`);
  }
  return res.json();
  \<close>
  A property read on \<^verbatim>\<open>null\<close> throws; on any other parsed value it gives the property of
  an object and \<^verbatim>\<open>undefined\<close> (\<open>None\<close>) otherwise. \<^verbatim>\<open>a || b\<close> is \<^verbatim>\<open>a\<close> when \<^verbatim>\<open>a\<close> is
  truthy.
\<close>

fun truthy :: "json \<Rightarrow> bool" where
  "truthy JNull = False"
| "truthy (JBool b) = b"
| "truthy (JNum n) = (n \<noteq> 0)"
| "truthy (JStr s) = (s \<noteq> [])"
| "truthy (JArr xs) = True"
| "truthy (JObj kvs) = True"

fun property :: "json \<Rightarrow> string \<Rightarrow> json option" where
  "property (JObj kvs) k = map_of kvs k"
| "property _ k = None"

definition truthy_property :: "json \<Rightarrow> string \<Rightarrow> json option" where
  "truthy_property err k =
     (case property err k of None \<Rightarrow> None | Some v \<Rightarrow> if truthy v then Some v else None)"

text \<open>
  The value of \<^verbatim>\<open>msg\<close> is either a property of the parsed body, of any JSON type, or a
  string: the result of \<^verbatim>\<open>JSON.stringify\<close> or \<^verbatim>\<open>res.statusText\<close>.
\<close>

datatype msg = Property json | Text string

definition msg_of :: "(json \<Rightarrow> string) \<Rightarrow> Response \<Rightarrow> json \<Rightarrow> msg" where
  "msg_of stringify res err =
     (case truthy_property err ''message'' of
        Some v \<Rightarrow> Property v
      | None \<Rightarrow>
          (case truthy_property err ''error'' of
             Some v \<Rightarrow> Property v
           | None \<Rightarrow> Text (if stringify err \<noteq> [] then stringify err else res_statusText res)))"

text \<open>
  \<^verbatim>\<open>${msg}\<close> converts the value to a string. A string is taken as it is. The conversion of
  any other parsed value is the platform's, the parameter \<open>toStr\<close>; it throws a
  \<^verbatim>\<open>TypeError\<close> on an object that has no callable \<^verbatim>\<open>toString\<close>, such as the parsed
  \<^verbatim>\<open>{"toString": 1}\<close>, so its result is an exception or a string.
\<close>

fun interpolate :: "(json \<Rightarrow> exn + string) \<Rightarrow> msg \<Rightarrow> exn + string" where
  "interpolate toStr (Text s) = Inr s"
| "interpolate toStr (Property (JStr s)) = Inr s"
| "interpolate toStr (Property v) = toStr v"

definition getQuote_byo ::
  "(json \<Rightarrow> string) \<Rightarrow> (json \<Rightarrow> exn + string) \<Rightarrow> Response \<Rightarrow> exn + json" where
  "getQuote_byo stringify toStr res =
     (if \<not> res_ok res then
        (let err = json_or_empty res in
         if err = JNull then Inl TypeError
         else
           (case interpolate toStr (msg_of stringify res err) of
              Inl e \<Rightarrow> Inl e
            | Inr m \<Rightarrow>
                Inl (Error (''Quote failed ('' @ show_nat (res_status res) @ ''): '' @ m))))
      else res_json res)"

definition postSignature_byo ::
  "(json \<Rightarrow> string) \<Rightarrow> (json \<Rightarrow> exn + string) \<Rightarrow> Response \<Rightarrow> exn + json" where
  "postSignature_byo stringify toStr res =
     (if \<not> res_ok res then
        (let err = json_or_empty res in
         if err = JNull then Inl TypeError
         else
           (case interpolate toStr (msg_of stringify res err) of
              Inl e \<Rightarrow> Inl e
            | Inr m \<Rightarrow>
                Inl (Error (''Signature submission failed ('' @ show_nat (res_status res)
                            @ ''): '' @ m))))
      else res_json res)"

definition getStatus_byo :: "(json \<Rightarrow> string) \<Rightarrow> Response \<Rightarrow> exn + json" where
  "getStatus_byo stringify res =
     (if \<not> res_ok res then
        Inl (Error (''Status check failed ('' @ show_nat (res_status res) @ ''): ''
                    @ stringify (json_or_empty res)))
      else res_json res)"

subsection \<open>The command-line examples: \<^verbatim>\<open>relayFetch\<close>\<close>

text \<open>
  \<^verbatim>\<open>
  if (!res.ok) {
    const error = await res.text();
    throw new Error(`${path} failed (${res.status}): ${error}`);
  }
  return res.json();
  \<close>
\<close>

definition relayFetch :: "string \<Rightarrow> Response \<Rightarrow> exn + json" where
  "relayFetch path res =
     (if \<not> res_ok res then
        Inl (Error (path @ '' failed ('' @ show_nat (res_status res) @ ''): '' @ res_text res))
      else res_json res)"

section \<open>Sample inputs\<close>

text \<open>Status replies, sources of replies and callbacks on which the results below are run.\<close>

definition reply :: "string \<Rightarrow> RelayStatusResponse" where
  "reply st =
     \<lparr>status = st, requestId = ''0x01'', inTxHashes = None, outTxHashes = None,
      originChainId = None, destinationChainId = None\<rparr>"

definition script_reply :: "string \<Rightarrow> ScriptStatus" where
  "script_reply st =
     \<lparr>status = st, requestId = ''0x01'', inTxHashes = None, outTxHashes = None,
      originChainId = None, destinationChainId = None, txHashes = Some [''0xbeef'']\<rparr>"

text \<open>Two replies \<^verbatim>\<open>pending\<close>, then the given status for good.\<close>

definition settles :: "string \<Rightarrow> RelayStatusResponse getter" where
  "settles st rid i = Inr (reply (if i < 2 then ''pending'' else st))"

definition script_settles :: "string \<Rightarrow> ScriptStatus getter" where
  "script_settles st rid i = Inr (script_reply (if i < 2 then ''pending'' else st))"

text \<open>The four statuses of a request in flight, then \<^verbatim>\<open>delayed\<close> for good.\<close>

definition in_flight :: "RelayStatusResponse getter" where
  "in_flight rid i =
     Inr (reply (if i = 0 then ''waiting'' else if i = 1 then ''pending''
                 else if i = 2 then ''submitted'' else ''delayed''))"

definition script_in_flight :: "ScriptStatus getter" where
  "script_in_flight rid i =
     Inr (script_reply (if i = 0 then ''waiting'' else if i = 1 then ''pending''
                        else if i = 2 then ''submitted'' else ''delayed''))"

text \<open>A callback that returns, and one that throws on its second call.\<close>

definition quiet :: "RelayStatusResponse callback" where
  "quiet = Some (\<lambda>i s. None)"

definition throws_second :: "RelayStatusResponse callback" where
  "throws_second = Some (\<lambda>i s. if i = 1 then Some (Thrown ''boom'') else None)"

text \<open>
  A platform to run the helpers on: \<^verbatim>\<open>JSON.stringify\<close> and the conversion to a string that a
  template literal applies, on the values of \<^typ>\<open>json\<close>.
\<close>

fun intercalate :: "string \<Rightarrow> string list \<Rightarrow> string" where
  "intercalate sep [] = []"
| "intercalate sep [x] = x"
| "intercalate sep (x # y # ys) = x @ sep @ intercalate sep (y # ys)"

definition hex_digit :: "nat \<Rightarrow> char" where
  "hex_digit d = ''0123456789abcdef'' ! d"

definition escape :: "char \<Rightarrow> string" where
  "escape c =
     (if c = CHR 0x22 then [CHR 0x5C, CHR 0x22]
      else if c = CHR 0x5C then [CHR 0x5C, CHR 0x5C]
      else if c = CHR 0x08 then [CHR 0x5C, CHR ''b'']
      else if c = CHR 0x0C then [CHR 0x5C, CHR ''f'']
      else if c = CHR 0x0A then [CHR 0x5C, CHR ''n'']
      else if c = CHR 0x0D then [CHR 0x5C, CHR ''r'']
      else if c = CHR 0x09 then [CHR 0x5C, CHR ''t'']
      else if (of_char c :: nat) < 32 then
        [CHR 0x5C, CHR ''u'', CHR ''0'', CHR ''0'',
         hex_digit (of_char c div 16), hex_digit (of_char c mod 16)]
      else [c])"

definition quoted :: "string \<Rightarrow> string" where
  "quoted s = CHR 0x22 # concat (map escape s) @ [CHR 0x22]"

fun JSON_stringify :: "json \<Rightarrow> string" where
  "JSON_stringify JNull = ''null''"
| "JSON_stringify (JBool b) = (if b then ''true'' else ''false'')"
| "JSON_stringify (JNum n) = show_int n"
| "JSON_stringify (JStr s) = quoted s"
| "JSON_stringify (JArr xs) = ''['' @ intercalate '','' (map JSON_stringify xs) @ '']''"
| "JSON_stringify (JObj kvs) =
     ''{'' @ intercalate '','' (map (\<lambda>(k, v). quoted k @ '':'' @ JSON_stringify v) kvs) @ ''}''"

text \<open>
  The conversion to a string. An object converts to \<^verbatim>\<open>[object Object]\<close> through the
  \<^verbatim>\<open>toString\<close> it inherits, unless a property of its own named \<^verbatim>\<open>toString\<close> hides that
  one: a parsed value is never callable, and then the conversion throws. An array joins
  the conversions of its elements, \<^verbatim>\<open>null\<close> giving the empty string.
\<close>

fun convertible :: "json \<Rightarrow> bool" where
  "convertible (JArr xs) = list_all convertible xs"
| "convertible (JObj kvs) = (''toString'' \<notin> set (map fst kvs))"
| "convertible _ = True"

fun text_of :: "json \<Rightarrow> string" where
  "text_of JNull = ''null''"
| "text_of (JBool b) = (if b then ''true'' else ''false'')"
| "text_of (JNum n) = show_int n"
| "text_of (JStr s) = s"
| "text_of (JArr xs) = intercalate '','' (map (\<lambda>x. if x = JNull then [] else text_of x) xs)"
| "text_of (JObj kvs) = ''[object Object]''"

definition toString :: "json \<Rightarrow> exn + string" where
  "toString v = (if convertible v then Inr (text_of v) else Inl TypeError)"

text \<open>
  Five responses: two errors with a JSON body, an error and a success whose bodies are not
  JSON, and a success with a JSON body.
\<close>

definition no_route :: Response where
  \<open>no_route =
     \<lparr>res_ok = False, res_status = 404, res_statusText = ''Not Found'',
      res_text = ''{"message":"","error":"no route"}'',
      res_json = Inr (JObj [(''message'', JStr []), (''error'', JStr ''no route'')])\<rparr>\<close>

definition bad_request :: Response where
  \<open>bad_request =
     \<lparr>res_ok = False, res_status = 400, res_statusText = ''Bad Request'',
      res_text = ''{"message":"bad amount","code":7}'',
      res_json = Inr (JObj [(''message'', JStr ''bad amount''), (''code'', JNum 7)])\<rparr>\<close>

definition bad_gateway :: Response where
  "bad_gateway =
     \<lparr>res_ok = False, res_status = 502, res_statusText = ''Bad Gateway'',
      res_text = ''<html>Bad Gateway</html>'', res_json = Inl (Thrown ''SyntaxError'')\<rparr>"

definition ok_not_json :: Response where
  "ok_not_json =
     \<lparr>res_ok = True, res_status = 200, res_statusText = ''OK'',
      res_text = ''<html>maintenance</html>'', res_json = Inl (Thrown ''SyntaxError'')\<rparr>"

definition ok_json :: Response where
  \<open>ok_json =
     \<lparr>res_ok = True, res_status = 200, res_statusText = ''OK'',
      res_text = ''{"status":"success"}'',
      res_json = Inr (JObj [(''status'', JStr ''success'')])\<rparr>\<close>

section \<open>Auxiliary facts\<close>


lemma fetches_simps [simp]:
  "fetches [] = 0"
  "fetches (Fetch # tr) = Suc (fetches tr)"
  "fetches (Update r # tr) = fetches tr"
  "fetches (Sleep d # tr) = fetches tr"
  "fetches (Log l # tr) = fetches tr"
  "fetches (tr @ tr') = fetches tr + fetches tr'"
  by (simp_all add: fetches_def)

lemma sleeps_simps [simp]:
  "sleeps [] = 0"
  "sleeps (Fetch # tr) = sleeps tr"
  "sleeps (Update r # tr) = sleeps tr"
  "sleeps (Sleep d # tr) = Suc (sleeps tr)"
  "sleeps (Log l # tr) = sleeps tr"
  "sleeps (tr @ tr') = sleeps tr + sleeps tr'"
  by (simp_all add: sleeps_def)

lemma updates_append [simp]: "updates (tr @ tr') = updates tr @ updates tr'"
  by (induction tr rule: updates.induct) simp_all

lemma durations_append [simp]: "durations (tr @ tr') = durations tr @ durations tr'"
  by (induction tr rule: durations.induct) simp_all

lemma notify_counts [simp]:
  "fetches (notify onUpdate s) = 0" "sleeps (notify onUpdate s) = 0"
  "durations (notify onUpdate s) = []"
  by (simp_all add: notify_def split: option.splits)

lemma rounds_empty [simp]: "rounds getStatus rid onUpdate d n n = []"
  by (simp add: rounds_def)

lemma rounds_step:
  "i < n \<Longrightarrow> rounds getStatus rid onUpdate d i n =
     Fetch # notify onUpdate (projr (getStatus rid i)) @ Sleep d # rounds getStatus rid onUpdate d (Suc i) n"
  by (simp add: rounds_def upt_conv_Cons)

lemma rounds_snoc:
  "i \<le> n \<Longrightarrow> rounds getStatus rid onUpdate d i (Suc n) =
     rounds getStatus rid onUpdate d i n @ Fetch # notify onUpdate (projr (getStatus rid n)) @ [Sleep d]"
  by (simp add: rounds_def)

lemma fetches_rounds [simp]: "fetches (rounds getStatus rid onUpdate d i n) = n - i"
  by (induction n) (simp_all add: rounds_snoc Suc_diff_le not_less_eq_eq rounds_def)

lemma sleeps_rounds [simp]: "sleeps (rounds getStatus rid onUpdate d i n) = n - i"
  by (induction n) (simp_all add: rounds_snoc Suc_diff_le not_less_eq_eq rounds_def)

lemma durations_rounds [simp]: "durations (rounds getStatus rid onUpdate d i n) = replicate (n - i) d"
  by (induction n) (simp_all add: rounds_snoc Suc_diff_le not_less_eq_eq rounds_def replicate_append_same)

lemma keeps_pollingD:
  "keeps_polling T getStatus rid onUpdate n \<Longrightarrow> j < n \<Longrightarrow>
   \<exists>s. getStatus rid j = Inr s \<and> status s \<notin> T \<and> raised onUpdate j s = None"
  unfolding keeps_polling_def by (cases "getStatus rid j") (auto dest!: spec [of _ j])

lemma poll_loop_rounds:
  assumes "keeps_polling T getStatus rid onUpdate n" and "int n \<le> m" and "i \<le> n"
  shows "poll_loop T t getStatus rid onUpdate m d i =
           (rounds getStatus rid onUpdate d i n @ fst (poll_loop T t getStatus rid onUpdate m d n),
            snd (poll_loop T t getStatus rid onUpdate m d n))"
  using assms(3)
proof (induction "n - i" arbitrary: i)
  case 0
  then show ?case by simp
next
  case (Suc k)
  then have lt: "i < n" and k: "k = n - Suc i" and le: "Suc i \<le> n" by auto
  from keeps_pollingD [OF assms(1) lt] obtain s where
    s: "getStatus rid i = Inr s" "status s \<notin> T" "raised onUpdate i s = None" by blast
  have "int i < m" using lt assms(2) by simp
  then show ?case
    using s Suc.hyps(1) [OF k le]
    by (subst poll_loop.simps) (simp add: rounds_step [OF lt] split: prod.splits)
qed


lemma poll_loop_terminal:
  "int n < m \<Longrightarrow> getStatus rid n = Inr r \<Longrightarrow> raised onUpdate n r = None \<Longrightarrow> status r \<in> T \<Longrightarrow>
   poll_loop T t getStatus rid onUpdate m d n = (Fetch # notify onUpdate r, Inr r)"
  by (subst poll_loop.simps) simp

lemma poll_loop_raised:
  "int n < m \<Longrightarrow> getStatus rid n = Inr r \<Longrightarrow> raised onUpdate n r = Some e \<Longrightarrow>
   poll_loop T t getStatus rid onUpdate m d n = (Fetch # notify onUpdate r, Inl e)"
  by (subst poll_loop.simps) simp

lemma poll_loop_exhausted:
  "m \<le> int n \<Longrightarrow> poll_loop T t getStatus rid onUpdate m d n = ([], Inl (Error (t m)))"
  by (subst poll_loop.simps) simp

lemma poll_loop_first_fetch:
  "int n < m \<Longrightarrow> \<exists>tr. fst (poll_loop T t getStatus rid onUpdate m d n) = Fetch # tr"
  by (subst poll_loop.simps) (simp split: sum.splits option.splits prod.splits)

lemma keeps_polling_mono:
  "keeps_polling T' getStatus rid onUpdate n \<Longrightarrow> T \<subseteq> T' \<Longrightarrow> keeps_polling T getStatus rid onUpdate n"
  unfolding keeps_polling_def by (auto split: sum.splits)

lemma poll_first_terminal:
  assumes "keeps_polling T getStatus rid onUpdate n" "int n < m" "getStatus rid n = Inr r"
    "status r \<in> T" "raised onUpdate n r = None"
  shows "poll_loop T t getStatus rid onUpdate m d 0 =
           (rounds getStatus rid onUpdate d 0 n @ Fetch # notify onUpdate r, Inr r)"
  using poll_loop_rounds [OF assms(1), of m 0 t d] assms(2-)
  by (simp add: poll_loop_terminal)

lemma poll_timeout:
  assumes "keeps_polling T getStatus rid onUpdate (nat m)"
  shows "poll_loop T t getStatus rid onUpdate m d 0 =
           (rounds getStatus rid onUpdate d 0 (nat m), Inl (Error (t m)))"
proof (cases "0 \<le> m")
  case True
  then show ?thesis
    using poll_loop_rounds [OF assms, of m 0 t d] by (simp add: poll_loop_exhausted)
next
  case False
  then show ?thesis by (simp add: poll_loop_exhausted)
qed

lemma poll_callback_throws:
  assumes "keeps_polling T getStatus rid onUpdate n" "int n < m" "getStatus rid n = Inr r"
    "raised onUpdate n r = Some e"
  shows "poll_loop T t getStatus rid onUpdate m d 0 =
           (rounds getStatus rid onUpdate d 0 n @ Fetch # notify onUpdate r, Inl e)"
  using poll_loop_rounds [OF assms(1), of m 0 t d] assms(2-)
  by (simp add: poll_loop_raised)


lemma poll_loop_continue:
  "int i < m \<Longrightarrow> getStatus rid i = Inr s \<Longrightarrow> raised onUpdate i s = None \<Longrightarrow> status s \<notin> T \<Longrightarrow>
   poll_loop T t getStatus rid onUpdate m d i =
     (Fetch # notify onUpdate s @ Sleep d # fst (poll_loop T t getStatus rid onUpdate m d (Suc i)),
      snd (poll_loop T t getStatus rid onUpdate m d (Suc i)))"
  by (subst poll_loop.simps) (simp add: case_prod_unfold Let_def)

lemma poll_loop_fetch_fails:
  "int i < m \<Longrightarrow> getStatus rid i = Inl e \<Longrightarrow>
   poll_loop T t getStatus rid onUpdate m d i = ([Fetch], Inl e)"
  by (subst poll_loop.simps) simp

lemma fetched_empty [simp]: "fetched getStatus rid n n = []"
  by (simp add: fetched_def)

lemma fetched_step:
  "i < n \<Longrightarrow> fetched getStatus rid i n =
     (case getStatus rid i of Inl e \<Rightarrow> [] | Inr s \<Rightarrow> [s]) @ fetched getStatus rid (Suc i) n"
  by (simp add: fetched_def upt_conv_Cons)

lemma poll_loop_updates:
  "updates (fst (poll_loop T t getStatus rid (Some f) m d i)) =
     fetched getStatus rid i (i + fetches (fst (poll_loop T t getStatus rid (Some f) m d i)))"
proof (induction T t getStatus rid "Some f :: RelayStatusResponse callback" m d i rule: poll_loop.induct)
  case (1 T t getStatus rid m d i)
  show ?case
  proof (cases "int i < m")
    case False
    then show ?thesis by (simp add: poll_loop_exhausted)
  next
    case lt: True
    show ?thesis
    proof (cases "getStatus rid i")
      case (Inl e)
      with lt show ?thesis
        by (subst (1 2) poll_loop.simps) (simp add: fetched_step)
    next
      case (Inr s)
      show ?thesis
      proof (cases "raised (Some f) i s = None \<and> status s \<notin> T")
        case True
        with lt Inr "1" [of s] show ?thesis
          by (simp add: poll_loop_continue fetched_step notify_def)
      next
        case False
        with lt Inr show ?thesis
          by (subst (1 2) poll_loop.simps)
             (auto simp: fetched_step notify_def split: option.splits)
      qed
    qed
  qed
qed

lemma poll_loop_durations:
  "durations (fst (poll_loop T t getStatus rid onUpdate m d i)) =
     replicate (sleeps (fst (poll_loop T t getStatus rid onUpdate m d i))) d"
proof (induction T t getStatus rid onUpdate m d i rule: poll_loop.induct)
  case (1 T t getStatus rid onUpdate m d i)
  show ?case
  proof (cases "int i < m")
    case False
    then show ?thesis by (simp add: poll_loop_exhausted)
  next
    case lt: True
    show ?thesis
    proof (cases "getStatus rid i")
      case (Inl e)
      with lt show ?thesis
        by (subst (1 2) poll_loop.simps) simp
    next
      case (Inr s)
      show ?thesis
      proof (cases "raised onUpdate i s = None \<and> status s \<notin> T")
        case True
        with lt Inr "1" [of s] show ?thesis
          by (simp add: poll_loop_continue)
      next
        case False
        with lt Inr show ?thesis
          by (subst (1 2) poll_loop.simps) (auto split: option.splits)
      qed
    qed
  qed
qed

lemma poll_loop_fetches_le:
  "fetches (fst (poll_loop T t getStatus rid onUpdate m d i)) \<le> nat (m - int i)"
proof (induction T t getStatus rid onUpdate m d i rule: poll_loop.induct)
  case (1 T t getStatus rid onUpdate m d i)
  show ?case
  proof (cases "int i < m")
    case False
    then show ?thesis by (simp add: poll_loop_exhausted)
  next
    case lt: True
    show ?thesis
    proof (cases "getStatus rid i")
      case (Inl e)
      with lt show ?thesis
        by (subst poll_loop.simps) simp
    next
      case (Inr s)
      show ?thesis
      proof (cases "raised onUpdate i s = None \<and> status s \<notin> T")
        case True
        with lt Inr "1" [of s] show ?thesis
          by (simp add: poll_loop_continue)
      next
        case False
        with lt Inr show ?thesis
          by (subst poll_loop.simps) (auto split: option.splits)
      qed
    qed
  qed
qed

lemma poll_loop_returns_terminal:
  "snd (poll_loop T t getStatus rid onUpdate m d i) = Inr r \<Longrightarrow>
   status r \<in> T \<and>
   getStatus rid (i + fetches (fst (poll_loop T t getStatus rid onUpdate m d i)) - 1) = Inr r"
proof (induction T t getStatus rid onUpdate m d i rule: poll_loop.induct)
  case (1 T t getStatus rid onUpdate m d i)
  show ?case
  proof (cases "int i < m")
    case False
    then show ?thesis using "1.prems" by (simp add: poll_loop_exhausted)
  next
    case lt: True
    show ?thesis
    proof (cases "getStatus rid i")
      case (Inl e)
      with lt "1.prems" show ?thesis
        by (subst (asm) poll_loop.simps) simp
    next
      case (Inr s)
      show ?thesis
      proof (cases "raised onUpdate i s = None \<and> status s \<notin> T")
        case True
        obtain tr out where next_run:
          "poll_loop T t getStatus rid onUpdate m d (Suc i) = (tr, out)" by force
        have here: "poll_loop T t getStatus rid onUpdate m d i =
                      (Fetch # notify onUpdate s @ Sleep d # tr, out)"
          using lt Inr True next_run by (subst poll_loop.simps) simp
        have "out = Inr r" using "1.prems" here by simp
        then have ih: "status r \<in> T \<and> getStatus rid (Suc i + fetches tr - 1) = Inr r"
          using "1.IH" [of s] lt Inr True next_run by simp
        have "0 < fetches tr"
        proof (rule ccontr)
          assume "\<not> 0 < fetches tr"
          moreover have "\<not> int (Suc i) < m \<or> (\<exists>tr'. tr = Fetch # tr')"
            using poll_loop_first_fetch [of "Suc i" m T t getStatus rid onUpdate d] next_run by auto
          ultimately have "\<not> int (Suc i) < m" by auto
          then have "out = Inl (Error (t m))"
            using next_run by (simp add: poll_loop_exhausted)
          with \<open>out = Inr r\<close> show False by simp
        qed
        then show ?thesis using ih here by simp
      next
        case False
        with lt Inr "1.prems" show ?thesis
          by (subst (asm) poll_loop.simps, subst poll_loop.simps)
             (auto split: option.splits if_splits)
      qed
    qed
  qed
qed


lemma script_rounds_empty [simp]: "script_rounds fetchStatus rid n n = []"
  by (simp add: script_rounds_def)

lemma script_rounds_step:
  "i < n \<Longrightarrow> script_rounds fetchStatus rid i n =
     Fetch # attempt_line i (projr (fetchStatus rid i)) # Sleep 5000 # script_rounds fetchStatus rid (Suc i) n"
  by (simp add: script_rounds_def upt_conv_Cons)

lemma attempt_line_counts [simp]:
  "fetches (attempt_line i s # tr) = fetches tr" "sleeps (attempt_line i s # tr) = sleeps tr"
  "durations (attempt_line i s # tr) = durations tr"
  by (simp_all add: attempt_line_def)

lemma tx_line_counts [simp]:
  "fetches (tx_line s # tr) = fetches tr" "sleeps (tx_line s # tr) = sleeps tr"
  "durations (tx_line s # tr) = durations tr"
  by (simp_all add: tx_line_def)

lemma fetches_script_rounds [simp]: "fetches (script_rounds fetchStatus rid i n) = n - i"
  by (induction n) (simp_all add: script_rounds_def Suc_diff_le not_less_eq_eq)

lemma sleeps_script_rounds [simp]: "sleeps (script_rounds fetchStatus rid i n) = n - i"
  by (induction n) (simp_all add: script_rounds_def Suc_diff_le not_less_eq_eq)


lemma script_loop_continue:
  "i < 60 \<Longrightarrow> fetchStatus rid i = Inr s \<Longrightarrow>
   status s \<noteq> ''success'' \<Longrightarrow> status s \<noteq> ''failure'' \<Longrightarrow> status s \<noteq> ''refund'' \<Longrightarrow>
   script_loop fetchStatus rid i =
     (Fetch # attempt_line i s # Sleep 5000 # fst (script_loop fetchStatus rid (Suc i)),
      snd (script_loop fetchStatus rid (Suc i)))"
  by (subst script_loop.simps) (simp add: case_prod_unfold Let_def)

lemma script_loop_success:
  "i < 60 \<Longrightarrow> fetchStatus rid i = Inr s \<Longrightarrow> status s = ''success'' \<Longrightarrow>
   script_loop fetchStatus rid i = ([Fetch, attempt_line i s, tx_line s], Inr ())"
  by (subst script_loop.simps) simp

lemma script_loop_failed:
  "i < 60 \<Longrightarrow> fetchStatus rid i = Inr s \<Longrightarrow> status s = ''failure'' \<or> status s = ''refund'' \<Longrightarrow>
   script_loop fetchStatus rid i = ([Fetch, attempt_line i s], Inl (Error (''Relay failed: '' @ status s)))"
  by (subst script_loop.simps) auto

lemma script_loop_fetch_fails:
  "i < 60 \<Longrightarrow> fetchStatus rid i = Inl e \<Longrightarrow> script_loop fetchStatus rid i = ([Fetch], Inl e)"
  by (subst script_loop.simps) simp

lemma script_loop_exhausted:
  "60 \<le> i \<Longrightarrow> script_loop fetchStatus rid i = ([], Inl (Error ''Polling timed out''))"
  by (subst script_loop.simps) simp

lemma script_loop_rounds:
  assumes "keeps_polling {''success'', ''failure'', ''refund''} fetchStatus rid None n"
    and "n \<le> 60" and "i \<le> n"
  shows "script_loop fetchStatus rid i =
           (script_rounds fetchStatus rid i n @ fst (script_loop fetchStatus rid n),
            snd (script_loop fetchStatus rid n))"
  using assms(3)
proof (induction "n - i" arbitrary: i)
  case 0
  then show ?case by simp
next
  case (Suc k)
  then have lt: "i < n" and k: "k = n - Suc i" and le: "Suc i \<le> n" by auto
  from keeps_pollingD [OF assms(1) lt] obtain s where
    s: "fetchStatus rid i = Inr s" "status s \<noteq> ''success''" "status s \<noteq> ''failure''"
       "status s \<noteq> ''refund''" by auto
  have "i < 60" using lt assms(2) by simp
  then show ?case
    using s Suc.hyps(1) [OF k le]
    by (simp add: script_loop_continue script_rounds_step [OF lt])
qed

lemma script_loop_durations:
  "durations (fst (script_loop fetchStatus rid i)) =
     replicate (sleeps (fst (script_loop fetchStatus rid i))) 5000"
proof (induction fetchStatus rid i rule: script_loop.induct)
  case (1 fetchStatus rid i)
  show ?case
  proof (cases "i < 60")
    case False
    then show ?thesis by (simp add: script_loop_exhausted)
  next
    case lt: True
    show ?thesis
    proof (cases "fetchStatus rid i")
      case (Inl e)
      with lt show ?thesis by (simp add: script_loop_fetch_fails)
    next
      case (Inr s)
      consider "status s = ''success''" | "status s = ''failure'' \<or> status s = ''refund''"
        | "status s \<noteq> ''success''" "status s \<noteq> ''failure''" "status s \<noteq> ''refund''"
        by blast
      then show ?thesis
      proof cases
        case 1
        with lt Inr show ?thesis by (simp add: script_loop_success)
      next
        case 2
        with lt Inr show ?thesis by (simp add: script_loop_failed)
      next
        case 3
        with lt Inr "1.IH" [of s] show ?thesis by (simp add: script_loop_continue)
      qed
    qed
  qed
qed

lemma script_loop_fetches_le:
  "fetches (fst (script_loop fetchStatus rid i)) \<le> 60 - i"
proof (induction fetchStatus rid i rule: script_loop.induct)
  case (1 fetchStatus rid i)
  show ?case
  proof (cases "i < 60")
    case False
    then show ?thesis by (simp add: script_loop_exhausted)
  next
    case lt: True
    show ?thesis
    proof (cases "fetchStatus rid i")
      case (Inl e)
      with lt show ?thesis by (simp add: script_loop_fetch_fails)
    next
      case (Inr s)
      consider "status s = ''success''" | "status s = ''failure'' \<or> status s = ''refund''"
        | "status s \<noteq> ''success''" "status s \<noteq> ''failure''" "status s \<noteq> ''refund''"
        by blast
      then show ?thesis
      proof cases
        case 1
        with lt Inr show ?thesis by (simp add: script_loop_success)
      next
        case 2
        with lt Inr show ?thesis by (simp add: script_loop_failed)
      next
        case 3
        with lt Inr "1.IH" [of s] show ?thesis by (simp add: script_loop_continue)
      qed
    qed
  qed
qed

lemmas sample_defs =
  settles_def script_settles_def reply_def script_reply_def quiet_def throws_second_def
  raised_def notify_def default_def TERMINAL_def TERMINAL_STATES_def

lemmas render_defs = show_int_def show_nat.simps digit_def attempt_line_def tx_line_def

lemma last_rounds: "i < n \<Longrightarrow> last (rounds getStatus rid onUpdate d i n) = Sleep d"
  by (cases n) (simp_all add: rounds_def)

lemma last_script_rounds: "i < n \<Longrightarrow> last (script_rounds fetchStatus rid i n) = Sleep 5000"
  by (cases n) (simp_all add: script_rounds_def)

lemma script_first_terminal:
  assumes "keeps_polling {''success'', ''failure'', ''refund''} fetchStatus rid None n" "n < 60"
    "fetchStatus rid n = Inr s" "status s \<in> {''success'', ''failure'', ''refund''}"
  shows "pollStatus_script fetchStatus rid =
           (Log (CHR 0x0A # ''Polling request '' @ rid @ ''...'') #
              script_rounds fetchStatus rid 0 n @ Fetch # attempt_line n s #
              (if status s = ''success'' then [tx_line s] else []),
            if status s = ''success'' then Inr () else Inl (Error (''Relay failed: '' @ status s)))"
proof (cases "status s = ''success''")
  case True
  then show ?thesis
    using script_loop_rounds [OF assms(1), of 0] assms(2,3)
    by (simp add: pollStatus_script_def script_loop_success)
next
  case False
  then have "status s = ''failure'' \<or> status s = ''refund''" using assms(4) by simp
  with False show ?thesis
    using script_loop_rounds [OF assms(1), of 0] assms(2,3)
    by (simp add: pollStatus_script_def script_loop_failed)
qed

lemma script_timeout:
  assumes "keeps_polling {''success'', ''failure'', ''refund''} fetchStatus rid None 60"
  shows "pollStatus_script fetchStatus rid =
           (Log (CHR 0x0A # ''Polling request '' @ rid @ ''...'') # script_rounds fetchStatus rid 0 60,
            Inl (Error ''Polling timed out''))"
  using script_loop_rounds [OF assms, of 0]
  by (simp add: pollStatus_script_def script_loop_exhausted)

lemma sublist_mid: "sublist xs (pre @ xs @ post)"
  by (auto simp: sublist_def)

lemma script_rounds_nonempty: "i < n \<Longrightarrow> script_rounds fetchStatus rid i n \<noteq> []"
  by (simp add: script_rounds_step)

lemma fetched_all_resolved:
  "\<forall>j<n. \<not> isl (getStatus rid j) \<Longrightarrow>
   fetched getStatus rid 0 n = map (\<lambda>j. projr (getStatus rid j)) [0..<n]"
proof (induction n)
  case 0
  then show ?case by simp
next
  case (Suc n)
  then have "\<not> isl (getStatus rid n)" by simp
  then obtain s where "getStatus rid n = Inr s" by (cases "getStatus rid n") auto
  with Suc show ?case by (simp add: fetched_def)
qed

lemma error_embeds:
  "h = Inl (Error (p @ c @ q @ b)) \<Longrightarrow> \<exists>m. h = Inl (Error m) \<and> sublist c m \<and> sublist b m"
  by (auto simp: sublist_def) (metis append.assoc append_Nil2)

lemmas helper_defs =
  getQuote_origin_def execute_origin_def getStatus_origin_def getQuote_byo_def
  postSignature_byo_def getStatus_byo_def relayFetch_def

lemma le0_nat: "0 \<le> (n::nat)"
  by simp

lemma poll_loop_fetches_pos:
  "int n < m \<Longrightarrow> 0 < fetches (fst (poll_loop T t getStatus rid onUpdate m d n))"
  using poll_loop_first_fetch [of n m T t getStatus rid onUpdate d] by auto

lemma script_loop_fetches_pos:
  "n < 60 \<Longrightarrow> 0 < fetches (fst (script_loop fetchStatus rid n))"
  by (subst script_loop.simps) (simp add: case_prod_unfold Let_def split: sum.splits)

section \<open>The claims\<close>

subsection \<open>Stopping at the first terminal status\<close>

text \<open>
  Claim C1, as the code has it. Let the first \<open>n\<close> attempts each fetch a status outside
  the terminal set, the callback (if any) returning each time, and let attempt \<open>n + 1\<close>, still
  within the attempt count, fetch a terminal status. Then the two pollers with a callback
  make exactly \<open>n + 1\<close> fetches and \<open>n\<close> sleeps and return that status response; their last
  effects are the fetch and the callback of that attempt. The poller of the command-line
  examples also stops after \<open>n + 1\<close> fetches, but it returns no value on \<^verbatim>\<open>success\<close> and
  throws \<^verbatim>\<open>Relay failed: <status>\<close> on \<^verbatim>\<open>failure\<close> and \<^verbatim>\<open>refund\<close>.
\<close>

theorem pollStatus_first_terminal:
  "(keeps_polling TERMINAL getStatus rid onUpdate n \<and> int n < default 60 maxAttempts \<and>
    getStatus rid n = Inr r \<and> status r \<in> TERMINAL \<and> raised onUpdate n r = None \<longrightarrow>
      pollStatus_origin getStatus rid onUpdate maxAttempts intervalMs =
        (rounds getStatus rid onUpdate (default 5000 intervalMs) 0 n @ Fetch # notify onUpdate r,
         Inr r) \<and>
      fetches (fst (pollStatus_origin getStatus rid onUpdate maxAttempts intervalMs)) = Suc n \<and>
      sleeps (fst (pollStatus_origin getStatus rid onUpdate maxAttempts intervalMs)) = n) \<and>
   (keeps_polling TERMINAL_STATES getStatus rid onUpdate n \<and> int n < default 100 maxAttempts \<and>
    getStatus rid n = Inr r \<and> status r \<in> TERMINAL_STATES \<and> raised onUpdate n r = None \<longrightarrow>
      pollStatus_byo getStatus rid onUpdate maxAttempts intervalMs =
        (rounds getStatus rid onUpdate (default 3000 intervalMs) 0 n @ Fetch # notify onUpdate r,
         Inr r) \<and>
      fetches (fst (pollStatus_byo getStatus rid onUpdate maxAttempts intervalMs)) = Suc n \<and>
      sleeps (fst (pollStatus_byo getStatus rid onUpdate maxAttempts intervalMs)) = n) \<and>
   (keeps_polling {''success'', ''failure'', ''refund''} fetchStatus rid None n \<and> n < 60 \<and>
    fetchStatus rid n = Inr s \<and> status s \<in> {''success'', ''failure'', ''refund''} \<longrightarrow>
      snd (pollStatus_script fetchStatus rid) =
        (if status s = ''success'' then Inr () else Inl (Error (''Relay failed: '' @ status s))) \<and>
      fetches (fst (pollStatus_script fetchStatus rid)) = Suc n \<and>
      sleeps (fst (pollStatus_script fetchStatus rid)) = n)"
proof (intro conjI impI; elim conjE)
  assume h: "keeps_polling TERMINAL getStatus rid onUpdate n" "int n < default 60 maxAttempts"
    "getStatus rid n = Inr r" "status r \<in> TERMINAL" "raised onUpdate n r = None"
  show run: "pollStatus_origin getStatus rid onUpdate maxAttempts intervalMs =
        (rounds getStatus rid onUpdate (default 5000 intervalMs) 0 n @ Fetch # notify onUpdate r, Inr r)"
    unfolding pollStatus_origin_def by (rule poll_first_terminal [OF h])
  show "fetches (fst (pollStatus_origin getStatus rid onUpdate maxAttempts intervalMs)) = Suc n"
    by (simp add: run)
  show "sleeps (fst (pollStatus_origin getStatus rid onUpdate maxAttempts intervalMs)) = n"
    by (simp add: run)
next
  assume h: "keeps_polling TERMINAL_STATES getStatus rid onUpdate n" "int n < default 100 maxAttempts"
    "getStatus rid n = Inr r" "status r \<in> TERMINAL_STATES" "raised onUpdate n r = None"
  show run: "pollStatus_byo getStatus rid onUpdate maxAttempts intervalMs =
        (rounds getStatus rid onUpdate (default 3000 intervalMs) 0 n @ Fetch # notify onUpdate r, Inr r)"
    unfolding pollStatus_byo_def by (rule poll_first_terminal [OF h])
  show "fetches (fst (pollStatus_byo getStatus rid onUpdate maxAttempts intervalMs)) = Suc n"
    by (simp add: run)
  show "sleeps (fst (pollStatus_byo getStatus rid onUpdate maxAttempts intervalMs)) = n"
    by (simp add: run)
next
  assume h: "keeps_polling {''success'', ''failure'', ''refund''} fetchStatus rid None n" "n < 60"
    "fetchStatus rid n = Inr s" "status s \<in> {''success'', ''failure'', ''refund''}"
  note run = script_first_terminal [OF h]
  show "snd (pollStatus_script fetchStatus rid) =
        (if status s = ''success'' then Inr () else Inl (Error (''Relay failed: '' @ status s)))"
    by (simp add: run)
  show "fetches (fst (pollStatus_script fetchStatus rid)) = Suc n"
    by (simp add: run)
  show "sleeps (fst (pollStatus_script fetchStatus rid)) = n"
    by (simp add: run)
qed

text \<open>
  The claim as stated, that every poller returns the terminal status response, fails on the
  poller of the command-line examples: a run whose third reply is \<^verbatim>\<open>failure\<close> ends in an
  exception.
\<close>

theorem pollStatus_script_failure_counterexample:
  "pollStatus_script (script_settles ''failure'') ''0x01'' =
     ([Log (CHR 0x0A # ''Polling request 0x01...''), Fetch, Log ''  [1] pending'', Sleep 5000,
       Fetch, Log ''  [2] pending'', Sleep 5000, Fetch, Log ''  [3] failure''],
      Inl (Error ''Relay failed: failure''))"
  by (simp add: pollStatus_script_def script_loop_continue script_loop_failed sample_defs render_defs)

theorem pollStatus_first_terminal_witness:
  "keeps_polling TERMINAL (settles ''success'') ''0x01'' quiet 2 \<and>
   keeps_polling TERMINAL_STATES (settles ''success'') ''0x01'' quiet 2 \<and>
   status (reply ''success'') \<in> TERMINAL \<inter> TERMINAL_STATES \<and>
   pollStatus_origin (settles ''success'') ''0x01'' quiet None None =
     ([Fetch, Update (reply ''pending''), Sleep 5000, Fetch, Update (reply ''pending''), Sleep 5000,
       Fetch, Update (reply ''success'')], Inr (reply ''success'')) \<and>
   pollStatus_byo (settles ''success'') ''0x01'' quiet None None =
     ([Fetch, Update (reply ''pending''), Sleep 3000, Fetch, Update (reply ''pending''), Sleep 3000,
       Fetch, Update (reply ''success'')], Inr (reply ''success'')) \<and>
   keeps_polling {''success'', ''failure'', ''refund''} (script_settles ''refund'') ''0x01'' None 2 \<and>
   snd (pollStatus_script (script_settles ''refund'') ''0x01'') = Inl (Error ''Relay failed: refund'') \<and>
   fetches (fst (pollStatus_script (script_settles ''refund'') ''0x01'')) = 3"
proof -
  have k: "keeps_polling TERMINAL (settles ''success'') ''0x01'' quiet 2"
    "keeps_polling TERMINAL_STATES (settles ''success'') ''0x01'' quiet 2"
    "keeps_polling {''success'', ''failure'', ''refund''} (script_settles ''refund'') ''0x01'' None 2"
    by (simp_all add: keeps_polling_def sample_defs)
  have r: "settles ''success'' ''0x01'' 2 = Inr (reply ''success'')"
    "script_settles ''refund'' ''0x01'' 2 = Inr (script_reply ''refund'')"
    "raised quiet 2 (reply ''success'') = None"
    by (simp_all add: sample_defs)
  have t: "status (reply ''success'') \<in> TERMINAL \<inter> TERMINAL_STATES"
    "status (script_reply ''refund'') \<in> {''success'', ''failure'', ''refund''}"
    by (simp_all add: sample_defs)
  have e: "rounds (settles ''success'') ''0x01'' quiet d 0 2 =
             [Fetch, Update (reply ''pending''), Sleep d, Fetch, Update (reply ''pending''), Sleep d]" for d
    by (simp add: rounds_step eval_nat_numeral sample_defs)
  show ?thesis
    using k r t
      pollStatus_first_terminal
        [where getStatus = "settles ''success''" and rid = "''0x01''" and onUpdate = quiet
           and n = 2 and maxAttempts = None and intervalMs = None and r = "reply ''success''"
           and fetchStatus = "script_settles ''refund''" and s = "script_reply ''refund''"]
    by (simp add: e [unfolded quiet_def] default_def notify_def quiet_def script_reply_def)
qed

subsection \<open>Running out of attempts\<close>

text \<open>
  Claim C2, as the code has it. When none of the first \<^verbatim>\<open>maxAttempts\<close> attempts fetches a
  terminal status (the callback, if any, returning each time), the two pollers with a
  callback make exactly \<^verbatim>\<open>maxAttempts\<close> fetches and throw a timeout error whose message
  contains the decimal \<^verbatim>\<open>maxAttempts\<close>. The poller of the command-line examples makes
  exactly 60 fetches and throws \<^verbatim>\<open>Polling timed out\<close>, a message without the count.
\<close>

theorem pollStatus_timeout:
  "(keeps_polling TERMINAL getStatus rid onUpdate (nat (default 60 maxAttempts)) \<longrightarrow>
      fetches (fst (pollStatus_origin getStatus rid onUpdate maxAttempts intervalMs)) =
        nat (default 60 maxAttempts) \<and>
      snd (pollStatus_origin getStatus rid onUpdate maxAttempts intervalMs) =
        Inl (Error (''Timed out after '' @ show_int (default 60 maxAttempts) @ '' attempts'')) \<and>
      sublist (show_int (default 60 maxAttempts))
        (''Timed out after '' @ show_int (default 60 maxAttempts) @ '' attempts'')) \<and>
   (keeps_polling TERMINAL_STATES getStatus rid onUpdate (nat (default 100 maxAttempts)) \<longrightarrow>
      fetches (fst (pollStatus_byo getStatus rid onUpdate maxAttempts intervalMs)) =
        nat (default 100 maxAttempts) \<and>
      snd (pollStatus_byo getStatus rid onUpdate maxAttempts intervalMs) =
        Inl (Error (''Polling timed out after '' @ show_int (default 100 maxAttempts) @ '' attempts'')) \<and>
      sublist (show_int (default 100 maxAttempts))
        (''Polling timed out after '' @ show_int (default 100 maxAttempts) @ '' attempts'')) \<and>
   (keeps_polling {''success'', ''failure'', ''refund''} fetchStatus rid None 60 \<longrightarrow>
      fetches (fst (pollStatus_script fetchStatus rid)) = 60 \<and>
      snd (pollStatus_script fetchStatus rid) = Inl (Error ''Polling timed out''))"
proof (intro conjI impI)
  assume h: "keeps_polling TERMINAL getStatus rid onUpdate (nat (default 60 maxAttempts))"
  have run: "pollStatus_origin getStatus rid onUpdate maxAttempts intervalMs =
      (rounds getStatus rid onUpdate (default 5000 intervalMs) 0 (nat (default 60 maxAttempts)),
       Inl (Error (''Timed out after '' @ show_int (default 60 maxAttempts) @ '' attempts'')))"
    unfolding pollStatus_origin_def by (rule poll_timeout [OF h])
  show "fetches (fst (pollStatus_origin getStatus rid onUpdate maxAttempts intervalMs)) =
        nat (default 60 maxAttempts)"
    by (simp add: run)
  show "snd (pollStatus_origin getStatus rid onUpdate maxAttempts intervalMs) =
        Inl (Error (''Timed out after '' @ show_int (default 60 maxAttempts) @ '' attempts''))"
    by (simp add: run)
next
  assume h: "keeps_polling TERMINAL_STATES getStatus rid onUpdate (nat (default 100 maxAttempts))"
  have run: "pollStatus_byo getStatus rid onUpdate maxAttempts intervalMs =
      (rounds getStatus rid onUpdate (default 3000 intervalMs) 0 (nat (default 100 maxAttempts)),
       Inl (Error (''Polling timed out after '' @ show_int (default 100 maxAttempts) @ '' attempts'')))"
    unfolding pollStatus_byo_def by (rule poll_timeout [OF h])
  show "fetches (fst (pollStatus_byo getStatus rid onUpdate maxAttempts intervalMs)) =
        nat (default 100 maxAttempts)"
    by (simp add: run)
  show "snd (pollStatus_byo getStatus rid onUpdate maxAttempts intervalMs) =
        Inl (Error (''Polling timed out after '' @ show_int (default 100 maxAttempts) @ '' attempts''))"
    by (simp add: run)
next
  assume h: "keeps_polling {''success'', ''failure'', ''refund''} fetchStatus rid None 60"
  note run = script_timeout [OF h]
  show "fetches (fst (pollStatus_script fetchStatus rid)) = 60" by (simp add: run)
  show "snd (pollStatus_script fetchStatus rid) = Inl (Error ''Polling timed out'')"
    by (simp add: run)
qed (rule sublist_mid)+

text \<open>
  The claim as stated, that the timeout message names the attempt count, fails on the
  poller of the command-line examples: after 60 replies \<^verbatim>\<open>pending\<close> its message is
  \<^verbatim>\<open>Polling timed out\<close>, in which \<^verbatim>\<open>60\<close> does not occur.
\<close>

theorem pollStatus_script_timeout_counterexample:
  "snd (pollStatus_script (script_settles ''pending'') ''0x01'') = Inl (Error ''Polling timed out'') \<and>
   show_nat 60 = ''60'' \<and> \<not> sublist ''60'' ''Polling timed out''"
proof -
  have "keeps_polling {''success'', ''failure'', ''refund''} (script_settles ''pending'') ''0x01'' None 60"
    by (simp add: keeps_polling_def sample_defs)
  then show ?thesis
    by (simp add: script_timeout render_defs sublist_Cons_right)
qed

theorem pollStatus_timeout_witness:
  "keeps_polling TERMINAL (settles ''refunded'') ''0x01'' quiet (nat (default 60 None)) \<and>
   keeps_polling TERMINAL_STATES (settles ''refund'') ''0x01'' quiet (nat (default 100 None)) \<and>
   keeps_polling {''success'', ''failure'', ''refund''} (script_settles ''refunded'') ''0x01'' None 60 \<and>
   fetches (fst (pollStatus_origin (settles ''refunded'') ''0x01'' quiet None None)) = 60 \<and>
   snd (pollStatus_origin (settles ''refunded'') ''0x01'' quiet None None) =
     Inl (Error ''Timed out after 60 attempts'') \<and>
   fetches (fst (pollStatus_byo (settles ''refund'') ''0x01'' quiet None None)) = 100 \<and>
   snd (pollStatus_byo (settles ''refund'') ''0x01'' quiet None None) =
     Inl (Error ''Polling timed out after 100 attempts'') \<and>
   fetches (fst (pollStatus_script (script_settles ''refunded'') ''0x01'')) = 60 \<and>
   snd (pollStatus_script (script_settles ''refunded'') ''0x01'') = Inl (Error ''Polling timed out'')"
proof -
  have k: "keeps_polling TERMINAL (settles ''refunded'') ''0x01'' quiet (nat (default 60 None))"
    "keeps_polling TERMINAL_STATES (settles ''refund'') ''0x01'' quiet (nat (default 100 None))"
    "keeps_polling {''success'', ''failure'', ''refund''} (script_settles ''refunded'') ''0x01'' None 60"
    by (simp_all add: keeps_polling_def sample_defs)
  have m: "show_int 60 = ''60''" "show_int 100 = ''100''"
    by (simp_all add: render_defs)
  show ?thesis
    using k
      pollStatus_timeout
        [where getStatus = "settles ''refunded''" and rid = "''0x01''" and onUpdate = quiet
           and maxAttempts = None and intervalMs = None
           and fetchStatus = "script_settles ''refunded''", THEN conjunct1]
      pollStatus_timeout
        [where getStatus = "settles ''refund''" and rid = "''0x01''" and onUpdate = quiet
           and maxAttempts = None and intervalMs = None
           and fetchStatus = "script_settles ''refunded''", THEN conjunct2]
    by (simp add: m default_def)
qed

subsection \<open>Sleeps of a run that times out\<close>

text \<open>
  Claim C10. In a run that times out (none of the first \<^verbatim>\<open>maxAttempts\<close> attempts fetches a
  terminal status, the callback, if any, returning each time) every attempt, the last one
  included, is followed by a sleep: the run sleeps exactly \<^verbatim>\<open>maxAttempts\<close> times, its last
  effect is a sleep of the interval, and then the timeout error is thrown. The poller of the
  command-line examples sleeps 60 times.
\<close>

theorem pollStatus_sleeps_every_attempt:
  "(keeps_polling TERMINAL getStatus rid onUpdate (nat (default 60 maxAttempts)) \<longrightarrow>
      pollStatus_origin getStatus rid onUpdate maxAttempts intervalMs =
        (rounds getStatus rid onUpdate (default 5000 intervalMs) 0 (nat (default 60 maxAttempts)),
         Inl (Error (''Timed out after '' @ show_int (default 60 maxAttempts) @ '' attempts''))) \<and>
      sleeps (fst (pollStatus_origin getStatus rid onUpdate maxAttempts intervalMs)) =
        nat (default 60 maxAttempts) \<and>
      (0 < default 60 maxAttempts \<longrightarrow>
         last (fst (pollStatus_origin getStatus rid onUpdate maxAttempts intervalMs)) =
           Sleep (default 5000 intervalMs))) \<and>
   (keeps_polling TERMINAL_STATES getStatus rid onUpdate (nat (default 100 maxAttempts)) \<longrightarrow>
      pollStatus_byo getStatus rid onUpdate maxAttempts intervalMs =
        (rounds getStatus rid onUpdate (default 3000 intervalMs) 0 (nat (default 100 maxAttempts)),
         Inl (Error (''Polling timed out after '' @ show_int (default 100 maxAttempts) @ '' attempts''))) \<and>
      sleeps (fst (pollStatus_byo getStatus rid onUpdate maxAttempts intervalMs)) =
        nat (default 100 maxAttempts) \<and>
      (0 < default 100 maxAttempts \<longrightarrow>
         last (fst (pollStatus_byo getStatus rid onUpdate maxAttempts intervalMs)) =
           Sleep (default 3000 intervalMs))) \<and>
   (keeps_polling {''success'', ''failure'', ''refund''} fetchStatus rid None 60 \<longrightarrow>
      sleeps (fst (pollStatus_script fetchStatus rid)) = 60 \<and>
      last (fst (pollStatus_script fetchStatus rid)) = Sleep 5000 \<and>
      snd (pollStatus_script fetchStatus rid) = Inl (Error ''Polling timed out''))"
proof (intro conjI impI)
  assume h: "keeps_polling TERMINAL getStatus rid onUpdate (nat (default 60 maxAttempts))"
  show run: "pollStatus_origin getStatus rid onUpdate maxAttempts intervalMs =
      (rounds getStatus rid onUpdate (default 5000 intervalMs) 0 (nat (default 60 maxAttempts)),
       Inl (Error (''Timed out after '' @ show_int (default 60 maxAttempts) @ '' attempts'')))"
    unfolding pollStatus_origin_def by (rule poll_timeout [OF h])
  show "sleeps (fst (pollStatus_origin getStatus rid onUpdate maxAttempts intervalMs)) =
        nat (default 60 maxAttempts)"
    by (simp add: run)
  show "last (fst (pollStatus_origin getStatus rid onUpdate maxAttempts intervalMs)) =
           Sleep (default 5000 intervalMs)" if "0 < default 60 maxAttempts"
    using that by (simp add: run last_rounds)
next
  assume h: "keeps_polling TERMINAL_STATES getStatus rid onUpdate (nat (default 100 maxAttempts))"
  show run: "pollStatus_byo getStatus rid onUpdate maxAttempts intervalMs =
      (rounds getStatus rid onUpdate (default 3000 intervalMs) 0 (nat (default 100 maxAttempts)),
       Inl (Error (''Polling timed out after '' @ show_int (default 100 maxAttempts) @ '' attempts'')))"
    unfolding pollStatus_byo_def by (rule poll_timeout [OF h])
  show "sleeps (fst (pollStatus_byo getStatus rid onUpdate maxAttempts intervalMs)) =
        nat (default 100 maxAttempts)"
    by (simp add: run)
  show "last (fst (pollStatus_byo getStatus rid onUpdate maxAttempts intervalMs)) =
           Sleep (default 3000 intervalMs)" if "0 < default 100 maxAttempts"
    using that by (simp add: run last_rounds)
next
  assume h: "keeps_polling {''success'', ''failure'', ''refund''} fetchStatus rid None 60"
  note run = script_timeout [OF h]
  show "sleeps (fst (pollStatus_script fetchStatus rid)) = 60" by (simp add: run)
  show "last (fst (pollStatus_script fetchStatus rid)) = Sleep 5000"
    by (simp add: run last_script_rounds script_rounds_nonempty)
  show "snd (pollStatus_script fetchStatus rid) = Inl (Error ''Polling timed out'')"
    by (simp add: run)
qed

theorem pollStatus_sleeps_every_attempt_witness:
  "keeps_polling TERMINAL (settles ''pending'') ''0x01'' quiet (nat (default 60 (Some 2))) \<and>
   keeps_polling TERMINAL_STATES (settles ''pending'') ''0x01'' quiet (nat (default 100 (Some 2))) \<and>
   keeps_polling {''success'', ''failure'', ''refund''} (script_settles ''pending'') ''0x01'' None 60 \<and>
   (0::int) < default 60 (Some 2) \<and> (0::int) < default 100 (Some 2) \<and>
   pollStatus_origin (settles ''pending'') ''0x01'' quiet (Some 2) None =
     ([Fetch, Update (reply ''pending''), Sleep 5000, Fetch, Update (reply ''pending''), Sleep 5000],
      Inl (Error ''Timed out after 2 attempts'')) \<and>
   pollStatus_byo (settles ''pending'') ''0x01'' quiet (Some 2) None =
     ([Fetch, Update (reply ''pending''), Sleep 3000, Fetch, Update (reply ''pending''), Sleep 3000],
      Inl (Error ''Polling timed out after 2 attempts'')) \<and>
   sleeps (fst (pollStatus_script (script_settles ''pending'') ''0x01'')) = 60 \<and>
   last (fst (pollStatus_script (script_settles ''pending'') ''0x01'')) = Sleep 5000"
proof -
  have k: "keeps_polling TERMINAL (settles ''pending'') ''0x01'' quiet (nat (default 60 (Some 2)))"
    "keeps_polling TERMINAL_STATES (settles ''pending'') ''0x01'' quiet (nat (default 100 (Some 2)))"
    "keeps_polling {''success'', ''failure'', ''refund''} (script_settles ''pending'') ''0x01'' None 60"
    by (simp_all add: keeps_polling_def sample_defs)
  have e: "rounds (settles ''pending'') ''0x01'' quiet d 0 2 =
             [Fetch, Update (reply ''pending''), Sleep d, Fetch, Update (reply ''pending''), Sleep d]" for d
    by (simp add: rounds_step eval_nat_numeral sample_defs)
  have m: "show_int 2 = ''2''" by (simp add: render_defs)
  show ?thesis
    using k
      pollStatus_sleeps_every_attempt
        [where getStatus = "settles ''pending''" and rid = "''0x01''" and onUpdate = quiet
           and maxAttempts = "Some 2" and intervalMs = None
           and fetchStatus = "script_settles ''pending''"]
    by (simp add: e m default_def)
qed

subsection \<open>No attempts allowed\<close>

text \<open>
  Claim C9. Called with \<^verbatim>\<open>maxAttempts <= 0\<close>, the two pollers that take the argument throw
  the timeout error at once: the run has no effect at all, so no fetch, no call of the
  callback and no sleep.
\<close>

theorem pollStatus_no_attempts:
  "maxAttempts \<le> 0 \<Longrightarrow>
   pollStatus_origin getStatus rid onUpdate (Some maxAttempts) intervalMs =
     ([], Inl (Error (''Timed out after '' @ show_int maxAttempts @ '' attempts''))) \<and>
   pollStatus_byo getStatus rid onUpdate (Some maxAttempts) intervalMs =
     ([], Inl (Error (''Polling timed out after '' @ show_int maxAttempts @ '' attempts''))) \<and>
   fetches (fst (pollStatus_origin getStatus rid onUpdate (Some maxAttempts) intervalMs)) = 0 \<and>
   updates (fst (pollStatus_origin getStatus rid onUpdate (Some maxAttempts) intervalMs)) = [] \<and>
   sleeps (fst (pollStatus_origin getStatus rid onUpdate (Some maxAttempts) intervalMs)) = 0 \<and>
   fetches (fst (pollStatus_byo getStatus rid onUpdate (Some maxAttempts) intervalMs)) = 0 \<and>
   updates (fst (pollStatus_byo getStatus rid onUpdate (Some maxAttempts) intervalMs)) = [] \<and>
   sleeps (fst (pollStatus_byo getStatus rid onUpdate (Some maxAttempts) intervalMs)) = 0"
  by (simp add: pollStatus_origin_def pollStatus_byo_def default_def poll_loop_exhausted)

theorem pollStatus_no_attempts_witness:
  "(-3::int) \<le> 0 \<and>
   pollStatus_origin (settles ''success'') ''0x01'' quiet (Some (-3)) None =
     ([], Inl (Error ''Timed out after -3 attempts'')) \<and>
   pollStatus_byo (settles ''success'') ''0x01'' quiet (Some (-3)) None =
     ([], Inl (Error ''Polling timed out after -3 attempts''))"
  using pollStatus_no_attempts [of "-3" "settles ''success''" "''0x01''" quiet None]
  by (simp add: render_defs)

subsection \<open>A callback that throws\<close>

text \<open>
  Claim C4. The exception of the callback is not caught. If the callback throws \<open>e\<close> when it
  is called on attempt \<open>n + 1\<close> (the earlier attempts having gone round the loop, and attempt
  \<open>n + 1\<close> being within the attempt count), the run ends with \<open>e\<close> right after that call:
  exactly \<open>n + 1\<close> fetches have been made, and neither a sleep nor another attempt follows.
  This holds whether or not the status of that attempt is terminal.
\<close>

theorem pollStatus_callback_throws:
  "(keeps_polling TERMINAL getStatus rid (Some f) n \<and> int n < default 60 maxAttempts \<and>
    getStatus rid n = Inr s \<and> f n s = Some e \<longrightarrow>
      pollStatus_origin getStatus rid (Some f) maxAttempts intervalMs =
        (rounds getStatus rid (Some f) (default 5000 intervalMs) 0 n @ [Fetch, Update s], Inl e) \<and>
      fetches (fst (pollStatus_origin getStatus rid (Some f) maxAttempts intervalMs)) = Suc n) \<and>
   (keeps_polling TERMINAL_STATES getStatus rid (Some f) n \<and> int n < default 100 maxAttempts \<and>
    getStatus rid n = Inr s \<and> f n s = Some e \<longrightarrow>
      pollStatus_byo getStatus rid (Some f) maxAttempts intervalMs =
        (rounds getStatus rid (Some f) (default 3000 intervalMs) 0 n @ [Fetch, Update s], Inl e) \<and>
      fetches (fst (pollStatus_byo getStatus rid (Some f) maxAttempts intervalMs)) = Suc n)"
proof (intro conjI impI; elim conjE)
  assume h: "keeps_polling TERMINAL getStatus rid (Some f) n" "int n < default 60 maxAttempts"
    "getStatus rid n = Inr s" and e: "f n s = Some e"
  from e have r: "raised (Some f) n s = Some e" by (simp add: raised_def)
  show run: "pollStatus_origin getStatus rid (Some f) maxAttempts intervalMs =
        (rounds getStatus rid (Some f) (default 5000 intervalMs) 0 n @ [Fetch, Update s], Inl e)"
    unfolding pollStatus_origin_def using poll_callback_throws [OF h r]
    by (simp add: notify_def)
  show "fetches (fst (pollStatus_origin getStatus rid (Some f) maxAttempts intervalMs)) = Suc n"
    by (simp add: run)
next
  assume h: "keeps_polling TERMINAL_STATES getStatus rid (Some f) n" "int n < default 100 maxAttempts"
    "getStatus rid n = Inr s" and e: "f n s = Some e"
  from e have r: "raised (Some f) n s = Some e" by (simp add: raised_def)
  show run: "pollStatus_byo getStatus rid (Some f) maxAttempts intervalMs =
        (rounds getStatus rid (Some f) (default 3000 intervalMs) 0 n @ [Fetch, Update s], Inl e)"
    unfolding pollStatus_byo_def using poll_callback_throws [OF h r]
    by (simp add: notify_def)
  show "fetches (fst (pollStatus_byo getStatus rid (Some f) maxAttempts intervalMs)) = Suc n"
    by (simp add: run)
qed

theorem pollStatus_callback_throws_witness:
  "keeps_polling TERMINAL (settles ''success'') ''0x01'' throws_second 1 \<and>
   keeps_polling TERMINAL_STATES (settles ''success'') ''0x01'' throws_second 1 \<and>
   pollStatus_origin (settles ''success'') ''0x01'' throws_second None None =
     ([Fetch, Update (reply ''pending''), Sleep 5000, Fetch, Update (reply ''pending'')],
      Inl (Thrown ''boom'')) \<and>
   fetches (fst (pollStatus_origin (settles ''success'') ''0x01'' throws_second None None)) = 2 \<and>
   pollStatus_byo (settles ''success'') ''0x01'' throws_second None None =
     ([Fetch, Update (reply ''pending''), Sleep 3000, Fetch, Update (reply ''pending'')],
      Inl (Thrown ''boom'')) \<and>
   fetches (fst (pollStatus_byo (settles ''success'') ''0x01'' throws_second None None)) = 2"
proof -
  have k: "keeps_polling TERMINAL (settles ''success'') ''0x01'' throws_second 1"
    "keeps_polling TERMINAL_STATES (settles ''success'') ''0x01'' throws_second 1"
    by (simp_all add: keeps_polling_def sample_defs)
  have r: "settles ''success'' ''0x01'' 1 = Inr (reply ''pending'')"
    by (simp add: sample_defs)
  have e: "rounds (settles ''success'') ''0x01''
             (Some (\<lambda>i s. if i = Suc 0 then Some (Thrown ''boom'') else None)) d 0 (Suc 0) =
             [Fetch, Update (reply ''pending''), Sleep d]" for d
    by (simp add: rounds_step sample_defs)
  show ?thesis
    using k r
      pollStatus_callback_throws
        [where getStatus = "settles ''success''" and rid = "''0x01''"
           and f = "\<lambda>i s. if i = 1 then Some (Thrown ''boom'') else None"
           and n = 1 and maxAttempts = None and intervalMs = None and s = "reply ''pending''"
           and e = "Thrown ''boom''"]
    by (simp add: e default_def throws_second_def)
qed

subsection \<open>Statuses outside the terminal set\<close>

text \<open>
  Claim C5. A status outside \<^verbatim>\<open>{success, failure, refund, refunded}\<close> never ends a run. If the
  first \<open>n\<close> attempts, all within the attempt count, fetch such statuses (the callback, if
  any, returning each time), then the run begins with \<open>n\<close> rounds, each a fetch, the callback
  and a sleep of the fixed interval, and when attempts remain after them a further fetch is
  made. This holds for the three pollers.
\<close>

theorem pollStatus_non_terminal_retries:
  "(keeps_polling (TERMINAL \<union> TERMINAL_STATES) getStatus rid onUpdate n \<and>
    int n \<le> default 60 maxAttempts \<longrightarrow>
      prefix (rounds getStatus rid onUpdate (default 5000 intervalMs) 0 n)
        (fst (pollStatus_origin getStatus rid onUpdate maxAttempts intervalMs)) \<and>
      (int n < default 60 maxAttempts \<longrightarrow>
         n < fetches (fst (pollStatus_origin getStatus rid onUpdate maxAttempts intervalMs)))) \<and>
   (keeps_polling (TERMINAL \<union> TERMINAL_STATES) getStatus rid onUpdate n \<and>
    int n \<le> default 100 maxAttempts \<longrightarrow>
      prefix (rounds getStatus rid onUpdate (default 3000 intervalMs) 0 n)
        (fst (pollStatus_byo getStatus rid onUpdate maxAttempts intervalMs)) \<and>
      (int n < default 100 maxAttempts \<longrightarrow>
         n < fetches (fst (pollStatus_byo getStatus rid onUpdate maxAttempts intervalMs)))) \<and>
   (keeps_polling (TERMINAL \<union> TERMINAL_STATES) fetchStatus rid None n \<and> n \<le> 60 \<longrightarrow>
      prefix (Log (CHR 0x0A # ''Polling request '' @ rid @ ''...'') # script_rounds fetchStatus rid 0 n)
        (fst (pollStatus_script fetchStatus rid)) \<and>
      (n < 60 \<longrightarrow> n < fetches (fst (pollStatus_script fetchStatus rid))))"
proof (intro conjI impI; elim conjE)
  assume k: "keeps_polling (TERMINAL \<union> TERMINAL_STATES) getStatus rid onUpdate n"
    and le: "int n \<le> default 60 maxAttempts"
  from k have k1: "keeps_polling TERMINAL getStatus rid onUpdate n"
    by (rule keeps_polling_mono) simp
  note run = poll_loop_rounds [OF k1 le le0_nat]
  show "prefix (rounds getStatus rid onUpdate (default 5000 intervalMs) 0 n)
      (fst (pollStatus_origin getStatus rid onUpdate maxAttempts intervalMs))"
    unfolding pollStatus_origin_def by (subst run) (simp add: prefix_def)
  show "n < fetches (fst (pollStatus_origin getStatus rid onUpdate maxAttempts intervalMs))"
    if lt: "int n < default 60 maxAttempts"
    unfolding pollStatus_origin_def by (subst run) (simp add: poll_loop_fetches_pos [OF lt])
next
  assume k: "keeps_polling (TERMINAL \<union> TERMINAL_STATES) getStatus rid onUpdate n"
    and le: "int n \<le> default 100 maxAttempts"
  from k have k2: "keeps_polling TERMINAL_STATES getStatus rid onUpdate n"
    by (rule keeps_polling_mono) simp
  note run = poll_loop_rounds [OF k2 le le0_nat]
  show "prefix (rounds getStatus rid onUpdate (default 3000 intervalMs) 0 n)
      (fst (pollStatus_byo getStatus rid onUpdate maxAttempts intervalMs))"
    unfolding pollStatus_byo_def by (subst run) (simp add: prefix_def)
  show "n < fetches (fst (pollStatus_byo getStatus rid onUpdate maxAttempts intervalMs))"
    if lt: "int n < default 100 maxAttempts"
    unfolding pollStatus_byo_def by (subst run) (simp add: poll_loop_fetches_pos [OF lt])
next
  assume k: "keeps_polling (TERMINAL \<union> TERMINAL_STATES) fetchStatus rid None n"
    and le: "n \<le> 60"
  from k have k3: "keeps_polling {''success'', ''failure'', ''refund''} fetchStatus rid None n"
    by (rule keeps_polling_mono) (simp add: TERMINAL_def)
  note run = script_loop_rounds [OF k3 le le0_nat]
  show "prefix (Log (CHR 0x0A # ''Polling request '' @ rid @ ''...'') # script_rounds fetchStatus rid 0 n)
      (fst (pollStatus_script fetchStatus rid))"
    unfolding pollStatus_script_def by (subst run) (simp add: prefix_def)
  show "n < fetches (fst (pollStatus_script fetchStatus rid))" if lt: "n < 60"
    unfolding pollStatus_script_def by (subst run) (simp add: script_loop_fetches_pos [OF lt])
qed

theorem pollStatus_non_terminal_retries_witness:
  "keeps_polling (TERMINAL \<union> TERMINAL_STATES) in_flight ''0x01'' quiet 4 \<and>
   keeps_polling (TERMINAL \<union> TERMINAL_STATES) script_in_flight ''0x01'' None 4 \<and>
   int 4 < default 60 None \<and> int 4 < default 100 None \<and>
   prefix [Fetch, Update (reply ''waiting''), Sleep 5000, Fetch, Update (reply ''pending''), Sleep 5000,
           Fetch, Update (reply ''submitted''), Sleep 5000, Fetch, Update (reply ''delayed''), Sleep 5000]
     (fst (pollStatus_origin in_flight ''0x01'' quiet None None)) \<and>
   4 < fetches (fst (pollStatus_origin in_flight ''0x01'' quiet None None)) \<and>
   prefix [Fetch, Update (reply ''waiting''), Sleep 3000, Fetch, Update (reply ''pending''), Sleep 3000,
           Fetch, Update (reply ''submitted''), Sleep 3000, Fetch, Update (reply ''delayed''), Sleep 3000]
     (fst (pollStatus_byo in_flight ''0x01'' quiet None None)) \<and>
   4 < fetches (fst (pollStatus_byo in_flight ''0x01'' quiet None None)) \<and>
   prefix [Log (CHR 0x0A # ''Polling request 0x01...''),
           Fetch, Log ''  [1] waiting'', Sleep 5000, Fetch, Log ''  [2] pending'', Sleep 5000,
           Fetch, Log ''  [3] submitted'', Sleep 5000, Fetch, Log ''  [4] delayed'', Sleep 5000]
     (fst (pollStatus_script script_in_flight ''0x01'')) \<and>
   4 < fetches (fst (pollStatus_script script_in_flight ''0x01''))"
proof -
  have k: "keeps_polling (TERMINAL \<union> TERMINAL_STATES) in_flight ''0x01'' quiet 4"
    "keeps_polling (TERMINAL \<union> TERMINAL_STATES) script_in_flight ''0x01'' None 4"
    by (simp_all add: keeps_polling_def in_flight_def script_in_flight_def sample_defs)
  have e: "rounds in_flight ''0x01'' quiet d 0 4 =
      [Fetch, Update (reply ''waiting''), Sleep d, Fetch, Update (reply ''pending''), Sleep d,
       Fetch, Update (reply ''submitted''), Sleep d, Fetch, Update (reply ''delayed''), Sleep d]" for d
    by (simp add: rounds_step eval_nat_numeral in_flight_def notify_def quiet_def)
  have s: "script_rounds script_in_flight ''0x01'' 0 4 =
      [Fetch, Log ''  [1] waiting'', Sleep 5000, Fetch, Log ''  [2] pending'', Sleep 5000,
       Fetch, Log ''  [3] submitted'', Sleep 5000, Fetch, Log ''  [4] delayed'', Sleep 5000]"
    by (simp add: script_rounds_step eval_nat_numeral script_in_flight_def script_reply_def render_defs)
  show ?thesis
    using k
      pollStatus_non_terminal_retries
        [where getStatus = in_flight and rid = "''0x01''" and onUpdate = quiet and n = 4
           and maxAttempts = None and intervalMs = None and fetchStatus = script_in_flight]
    by (simp add: e s default_def)
qed

subsection \<open>The progress callback\<close>

text \<open>
  Claim C3. In every run of a poller that is given a callback, the statuses passed to the
  callback are, in order, exactly the statuses that the fetches of the run resolved to: one
  call for each, also for the one fetched on the last attempt, be it the attempt that reads
  a terminal status or the last one before the timeout. In a run all of whose fetches
  resolve, that is one call per attempt, with the status of that attempt.
\<close>

theorem pollStatus_callback_every_attempt:
  "updates (fst (pollStatus_origin getStatus rid (Some f) maxAttempts intervalMs)) =
     fetched getStatus rid 0
       (fetches (fst (pollStatus_origin getStatus rid (Some f) maxAttempts intervalMs))) \<and>
   ((\<forall>j<fetches (fst (pollStatus_origin getStatus rid (Some f) maxAttempts intervalMs)).
        \<not> isl (getStatus rid j)) \<longrightarrow>
      updates (fst (pollStatus_origin getStatus rid (Some f) maxAttempts intervalMs)) =
        map (\<lambda>j. projr (getStatus rid j))
          [0..<fetches (fst (pollStatus_origin getStatus rid (Some f) maxAttempts intervalMs))]) \<and>
   updates (fst (pollStatus_byo getStatus rid (Some f) maxAttempts intervalMs)) =
     fetched getStatus rid 0
       (fetches (fst (pollStatus_byo getStatus rid (Some f) maxAttempts intervalMs))) \<and>
   ((\<forall>j<fetches (fst (pollStatus_byo getStatus rid (Some f) maxAttempts intervalMs)).
        \<not> isl (getStatus rid j)) \<longrightarrow>
      updates (fst (pollStatus_byo getStatus rid (Some f) maxAttempts intervalMs)) =
        map (\<lambda>j. projr (getStatus rid j))
          [0..<fetches (fst (pollStatus_byo getStatus rid (Some f) maxAttempts intervalMs))])"
proof -
  have o: "updates (fst (pollStatus_origin getStatus rid (Some f) maxAttempts intervalMs)) =
     fetched getStatus rid 0
       (fetches (fst (pollStatus_origin getStatus rid (Some f) maxAttempts intervalMs)))"
    unfolding pollStatus_origin_def by (subst poll_loop_updates) simp
  have b: "updates (fst (pollStatus_byo getStatus rid (Some f) maxAttempts intervalMs)) =
     fetched getStatus rid 0
       (fetches (fst (pollStatus_byo getStatus rid (Some f) maxAttempts intervalMs)))"
    unfolding pollStatus_byo_def by (subst poll_loop_updates) simp
  show ?thesis
    using o b by (simp add: fetched_all_resolved)
qed

theorem pollStatus_callback_every_attempt_witness:
  "fetches (fst (pollStatus_origin (settles ''success'') ''0x01'' quiet None None)) = 3 \<and>
   updates (fst (pollStatus_origin (settles ''success'') ''0x01'' quiet None None)) =
     [reply ''pending'', reply ''pending'', reply ''success''] \<and>
   fetches (fst (pollStatus_byo (settles ''success'') ''0x01'' quiet None None)) = 3 \<and>
   updates (fst (pollStatus_byo (settles ''success'') ''0x01'' quiet None None)) =
     [reply ''pending'', reply ''pending'', reply ''success'']"
proof -
  have o: "fetches (fst (pollStatus_origin (settles ''success'') ''0x01'' (Some (\<lambda>i s. None)) None None)) = 3"
    by (simp add: pollStatus_origin_def poll_loop_continue poll_loop_terminal sample_defs)
  have b: "fetches (fst (pollStatus_byo (settles ''success'') ''0x01'' (Some (\<lambda>i s. None)) None None)) = 3"
    by (simp add: pollStatus_byo_def poll_loop_continue poll_loop_terminal sample_defs)
  have p: "\<forall>j<n. \<not> isl (settles ''success'' ''0x01'' j)" for n
    by (simp add: settles_def)
  have m: "map (\<lambda>j. projr (settles ''success'' ''0x01'' j)) [0..<3] =
             [reply ''pending'', reply ''pending'', reply ''success'']"
    by (simp add: settles_def eval_nat_numeral upt_rec [of 0] upt_rec [of "Suc 0"])
  note t = pollStatus_callback_every_attempt
    [where getStatus = "settles ''success''" and rid = "''0x01''" and f = "\<lambda>i s. None"
       and maxAttempts = None and intervalMs = None]
  have uo: "updates (fst (pollStatus_origin (settles ''success'') ''0x01'' (Some (\<lambda>i s. None)) None None)) =
      map (\<lambda>j. projr (settles ''success'' ''0x01'' j))
        [0..<fetches (fst (pollStatus_origin (settles ''success'') ''0x01'' (Some (\<lambda>i s. None)) None None))]"
    using t p by blast
  have ub: "updates (fst (pollStatus_byo (settles ''success'') ''0x01'' (Some (\<lambda>i s. None)) None None)) =
      map (\<lambda>j. projr (settles ''success'' ''0x01'' j))
        [0..<fetches (fst (pollStatus_byo (settles ''success'') ''0x01'' (Some (\<lambda>i s. None)) None None))]"
    using t p by blast
  show ?thesis
    unfolding quiet_def using uo ub by (simp add: o b m)
qed

subsection \<open>What a normal return delivers\<close>

text \<open>
  Claim C8. When a poller with a callback returns a status response, the status of that
  response is in the poller's terminal set, and the response is the one fetched on the last
  attempt of the run.
\<close>

theorem pollStatus_returns_terminal:
  "(snd (pollStatus_origin getStatus rid onUpdate maxAttempts intervalMs) = Inr r \<longrightarrow>
      status r \<in> TERMINAL \<and>
      getStatus rid (fetches (fst (pollStatus_origin getStatus rid onUpdate maxAttempts intervalMs)) - 1)
        = Inr r) \<and>
   (snd (pollStatus_byo getStatus rid onUpdate maxAttempts intervalMs) = Inr r \<longrightarrow>
      status r \<in> TERMINAL_STATES \<and>
      getStatus rid (fetches (fst (pollStatus_byo getStatus rid onUpdate maxAttempts intervalMs)) - 1)
        = Inr r)"
  unfolding pollStatus_origin_def pollStatus_byo_def
  using poll_loop_returns_terminal
    [of TERMINAL "\<lambda>m. ''Timed out after '' @ show_int m @ '' attempts''" getStatus rid onUpdate
        "default 60 maxAttempts" "default 5000 intervalMs" 0 r]
    poll_loop_returns_terminal
    [of TERMINAL_STATES "\<lambda>m. ''Polling timed out after '' @ show_int m @ '' attempts''" getStatus rid
        onUpdate "default 100 maxAttempts" "default 3000 intervalMs" 0 r]
  by simp

theorem pollStatus_returns_terminal_witness:
  "snd (pollStatus_origin (settles ''success'') ''0x01'' quiet None None) = Inr (reply ''success'') \<and>
   snd (pollStatus_byo (settles ''success'') ''0x01'' quiet None None) = Inr (reply ''success'') \<and>
   status (reply ''success'') \<in> TERMINAL \<and> status (reply ''success'') \<in> TERMINAL_STATES \<and>
   settles ''success'' ''0x01''
     (fetches (fst (pollStatus_origin (settles ''success'') ''0x01'' quiet None None)) - 1) =
     Inr (reply ''success'')"
proof -
  have o: "pollStatus_origin (settles ''success'') ''0x01'' quiet None None =
     ([Fetch, Update (reply ''pending''), Sleep 5000, Fetch, Update (reply ''pending''), Sleep 5000,
       Fetch, Update (reply ''success'')], Inr (reply ''success''))"
    by (simp add: pollStatus_origin_def poll_loop_continue poll_loop_terminal sample_defs)
  have b: "pollStatus_byo (settles ''success'') ''0x01'' quiet None None =
     ([Fetch, Update (reply ''pending''), Sleep 3000, Fetch, Update (reply ''pending''), Sleep 3000,
       Fetch, Update (reply ''success'')], Inr (reply ''success''))"
    by (simp add: pollStatus_byo_def poll_loop_continue poll_loop_terminal sample_defs)
  have "snd (pollStatus_origin (settles ''success'') ''0x01'' quiet None None) = Inr (reply ''success'')"
    "snd (pollStatus_byo (settles ''success'') ''0x01'' quiet None None) = Inr (reply ''success'')"
    by (simp_all add: o b)
  then show ?thesis
    using pollStatus_returns_terminal
        [where getStatus = "settles ''success''" and rid = "''0x01''" and onUpdate = quiet
           and maxAttempts = None and intervalMs = None and r = "reply ''success''"]
    by simp
qed

subsection \<open>Attempt counts and the interval\<close>

text \<open>
  Claim C7. Every sleep of a run lasts the same \<^verbatim>\<open>intervalMs\<close>, whatever the attempt, and a
  run makes at most \<^verbatim>\<open>maxAttempts\<close> fetches. With the optional arguments omitted, as at every
  call site of the examples, that is at most 60 fetches 5000 ms apart (origin-subsidy), at
  most 100 fetches 3000 ms apart (byo-eoa-permit), and at most 60 fetches 5000 ms apart for
  the poller of the command-line examples, whose bounds are literals.
\<close>

theorem pollStatus_fixed_interval:
  "durations (fst (pollStatus_origin getStatus rid onUpdate maxAttempts intervalMs)) =
     replicate (sleeps (fst (pollStatus_origin getStatus rid onUpdate maxAttempts intervalMs)))
       (default 5000 intervalMs) \<and>
   fetches (fst (pollStatus_origin getStatus rid onUpdate maxAttempts intervalMs)) \<le>
     nat (default 60 maxAttempts) \<and>
   durations (fst (pollStatus_byo getStatus rid onUpdate maxAttempts intervalMs)) =
     replicate (sleeps (fst (pollStatus_byo getStatus rid onUpdate maxAttempts intervalMs)))
       (default 3000 intervalMs) \<and>
   fetches (fst (pollStatus_byo getStatus rid onUpdate maxAttempts intervalMs)) \<le>
     nat (default 100 maxAttempts) \<and>
   durations (fst (pollStatus_script fetchStatus rid)) =
     replicate (sleeps (fst (pollStatus_script fetchStatus rid))) 5000 \<and>
   fetches (fst (pollStatus_script fetchStatus rid)) \<le> 60 \<and>
   durations (fst (pollStatus_origin getStatus rid onUpdate None None)) =
     replicate (sleeps (fst (pollStatus_origin getStatus rid onUpdate None None))) 5000 \<and>
   fetches (fst (pollStatus_origin getStatus rid onUpdate None None)) \<le> 60 \<and>
   durations (fst (pollStatus_byo getStatus rid onUpdate None None)) =
     replicate (sleeps (fst (pollStatus_byo getStatus rid onUpdate None None))) 3000 \<and>
   fetches (fst (pollStatus_byo getStatus rid onUpdate None None)) \<le> 100"
proof -
  have o: "durations (fst (pollStatus_origin getStatus rid onUpdate ma im)) =
     replicate (sleeps (fst (pollStatus_origin getStatus rid onUpdate ma im))) (default 5000 im) \<and>
     fetches (fst (pollStatus_origin getStatus rid onUpdate ma im)) \<le> nat (default 60 ma)" for ma im
    unfolding pollStatus_origin_def
    using poll_loop_durations [of TERMINAL _ getStatus rid onUpdate "default 60 ma" "default 5000 im" 0]
      poll_loop_fetches_le [of TERMINAL _ getStatus rid onUpdate "default 60 ma" "default 5000 im" 0]
    by simp
  have b: "durations (fst (pollStatus_byo getStatus rid onUpdate ma im)) =
     replicate (sleeps (fst (pollStatus_byo getStatus rid onUpdate ma im))) (default 3000 im) \<and>
     fetches (fst (pollStatus_byo getStatus rid onUpdate ma im)) \<le> nat (default 100 ma)" for ma im
    unfolding pollStatus_byo_def
    using poll_loop_durations [of TERMINAL_STATES _ getStatus rid onUpdate "default 100 ma" "default 3000 im" 0]
      poll_loop_fetches_le [of TERMINAL_STATES _ getStatus rid onUpdate "default 100 ma" "default 3000 im" 0]
    by simp
  have s: "durations (fst (pollStatus_script fetchStatus rid)) =
     replicate (sleeps (fst (pollStatus_script fetchStatus rid))) 5000 \<and>
     fetches (fst (pollStatus_script fetchStatus rid)) \<le> 60"
    unfolding pollStatus_script_def
    using script_loop_durations [of fetchStatus rid 0] script_loop_fetches_le [of fetchStatus rid 0]
    by (simp add: case_prod_unfold Let_def)
  show ?thesis
    using o [of maxAttempts intervalMs] o [of None None] b [of maxAttempts intervalMs] b [of None None] s
    by (simp add: default_def)
qed

theorem pollStatus_fixed_interval_witness:
  "fetches (fst (pollStatus_origin in_flight ''0x01'' quiet None None)) = 60 \<and>
   durations (fst (pollStatus_origin in_flight ''0x01'' quiet None None)) = replicate 60 5000 \<and>
   fetches (fst (pollStatus_byo in_flight ''0x01'' quiet None None)) = 100 \<and>
   durations (fst (pollStatus_byo in_flight ''0x01'' quiet None None)) = replicate 100 3000 \<and>
   fetches (fst (pollStatus_script script_in_flight ''0x01'')) = 60 \<and>
   durations (fst (pollStatus_script script_in_flight ''0x01'')) = replicate 60 5000"
proof -
  have k: "keeps_polling TERMINAL in_flight ''0x01'' quiet (nat 60)"
    "keeps_polling TERMINAL_STATES in_flight ''0x01'' quiet (nat 100)"
    "keeps_polling {''success'', ''failure'', ''refund''} script_in_flight ''0x01'' None 60"
    by (simp_all add: keeps_polling_def in_flight_def script_in_flight_def sample_defs)
  have o: "fetches (fst (pollStatus_origin in_flight ''0x01'' quiet None None)) = 60"
    "sleeps (fst (pollStatus_origin in_flight ''0x01'' quiet None None)) = 60"
    by (simp_all add: pollStatus_origin_def default_def poll_timeout [OF k(1)])
  have b: "fetches (fst (pollStatus_byo in_flight ''0x01'' quiet None None)) = 100"
    "sleeps (fst (pollStatus_byo in_flight ''0x01'' quiet None None)) = 100"
    by (simp_all add: pollStatus_byo_def default_def poll_timeout [OF k(2)])
  have s: "fetches (fst (pollStatus_script script_in_flight ''0x01'')) = 60"
    "sleeps (fst (pollStatus_script script_in_flight ''0x01'')) = 60"
    by (simp_all add: script_timeout [OF k(3)])
  show ?thesis
    using pollStatus_fixed_interval
        [where getStatus = in_flight and rid = "''0x01''" and onUpdate = quiet
           and maxAttempts = None and intervalMs = None and fetchStatus = script_in_flight]
    by (simp add: o b s default_def)
qed

subsection \<open>Errors of the API helpers\<close>

text \<open>
  Claim C6, as the code has it. Each helper throws exactly when the response is not ok or
  its body is not JSON; on an ok response its outcome is that of \<^verbatim>\<open>res.json()\<close>: the parsed
  body, or the rejection when the body does not parse. On a response that is not ok:
  \<^item> \<^verbatim>\<open>relayFetch\<close> throws an \<^verbatim>\<open>Error\<close> whose message contains the status code and the body
    as received;
  \<^item> \<^verbatim>\<open>getQuote\<close>, \<^verbatim>\<open>execute\<close> and \<^verbatim>\<open>getStatus\<close> of origin-subsidy and \<^verbatim>\<open>getStatus\<close> of
    byo-eoa-permit throw an \<^verbatim>\<open>Error\<close> whose message contains the status code and
    \<^verbatim>\<open>JSON.stringify\<close> of the parsed body, or of \<^verbatim>\<open>{}\<close> when the body is not JSON;
  \<^item> \<^verbatim>\<open>getQuote\<close> and \<^verbatim>\<open>postSignature\<close> of byo-eoa-permit, when the parsed body is not
    \<^verbatim>\<open>null\<close> and the value chosen for the message converts to a string, throw an \<^verbatim>\<open>Error\<close>
    whose message contains the status code and that string. The message ends with the
    body's \<^verbatim>\<open>message\<close> when that is a non-empty string; else with its \<^verbatim>\<open>error\<close> when
    \<^verbatim>\<open>message\<close> is absent or falsy and \<^verbatim>\<open>error\<close> is a non-empty string; and with
    \<^verbatim>\<open>JSON.stringify\<close> of the parsed body (of \<^verbatim>\<open>{}\<close> when the body is not JSON) when neither
    property is truthy.
  Nothing is stated here about the two helpers of byo-eoa-permit on a body that is \<^verbatim>\<open>null\<close>
  or whose chosen value does not convert to a string, beyond that they throw.
\<close>

theorem relay_helpers_outcome:
  "(isl (getQuote_origin S res) = (\<not> res_ok res \<or> isl (res_json res)) \<and>
    isl (execute_origin S res) = (\<not> res_ok res \<or> isl (res_json res)) \<and>
    isl (getStatus_origin S res) = (\<not> res_ok res \<or> isl (res_json res)) \<and>
    isl (getQuote_byo S Str res) = (\<not> res_ok res \<or> isl (res_json res)) \<and>
    isl (postSignature_byo S Str res) = (\<not> res_ok res \<or> isl (res_json res)) \<and>
    isl (getStatus_byo S res) = (\<not> res_ok res \<or> isl (res_json res)) \<and>
    isl (relayFetch path res) = (\<not> res_ok res \<or> isl (res_json res))) \<and>
   (res_ok res \<longrightarrow>
      getQuote_origin S res = res_json res \<and> execute_origin S res = res_json res \<and>
      getStatus_origin S res = res_json res \<and> getQuote_byo S Str res = res_json res \<and>
      postSignature_byo S Str res = res_json res \<and> getStatus_byo S res = res_json res \<and>
      relayFetch path res = res_json res) \<and>
   (\<not> res_ok res \<longrightarrow>
      (\<exists>m. relayFetch path res = Inl (Error m) \<and>
           sublist (show_nat (res_status res)) m \<and> sublist (res_text res) m) \<and>
      (\<exists>m. getQuote_origin S res = Inl (Error m) \<and>
           sublist (show_nat (res_status res)) m \<and> sublist (S (json_or_empty res)) m) \<and>
      (\<exists>m. execute_origin S res = Inl (Error m) \<and>
           sublist (show_nat (res_status res)) m \<and> sublist (S (json_or_empty res)) m) \<and>
      (\<exists>m. getStatus_origin S res = Inl (Error m) \<and>
           sublist (show_nat (res_status res)) m \<and> sublist (S (json_or_empty res)) m) \<and>
      (\<exists>m. getStatus_byo S res = Inl (Error m) \<and>
           sublist (show_nat (res_status res)) m \<and> sublist (S (json_or_empty res)) m) \<and>
      (json_or_empty res \<noteq> JNull \<and>
       interpolate Str (msg_of S res (json_or_empty res)) = Inr t \<longrightarrow>
         (\<exists>m. getQuote_byo S Str res = Inl (Error m) \<and>
              sublist (show_nat (res_status res)) m \<and> sublist t m) \<and>
         (\<exists>m. postSignature_byo S Str res = Inl (Error m) \<and>
              sublist (show_nat (res_status res)) m \<and> sublist t m)) \<and>
      (json_or_empty res = JObj kvs \<and> map_of kvs ''message'' = Some (JStr s) \<and> s \<noteq> [] \<longrightarrow>
         getQuote_byo S Str res =
           Inl (Error (''Quote failed ('' @ show_nat (res_status res) @ ''): '' @ s)) \<and>
         postSignature_byo S Str res =
           Inl (Error (''Signature submission failed ('' @ show_nat (res_status res) @ ''): '' @ s))) \<and>
      (json_or_empty res = JObj kvs \<and> truthy_property (JObj kvs) ''message'' = None \<and>
       map_of kvs ''error'' = Some (JStr s) \<and> s \<noteq> [] \<longrightarrow>
         getQuote_byo S Str res =
           Inl (Error (''Quote failed ('' @ show_nat (res_status res) @ ''): '' @ s)) \<and>
         postSignature_byo S Str res =
           Inl (Error (''Signature submission failed ('' @ show_nat (res_status res) @ ''): '' @ s))) \<and>
      (json_or_empty res \<noteq> JNull \<and> truthy_property (json_or_empty res) ''message'' = None \<and>
       truthy_property (json_or_empty res) ''error'' = None \<and> S (json_or_empty res) \<noteq> [] \<longrightarrow>
         getQuote_byo S Str res =
           Inl (Error (''Quote failed ('' @ show_nat (res_status res) @ ''): ''
                       @ S (json_or_empty res))) \<and>
         postSignature_byo S Str res =
           Inl (Error (''Signature submission failed ('' @ show_nat (res_status res) @ ''): ''
                       @ S (json_or_empty res)))))"
proof (intro conjI impI)
  assume bad: "\<not> res_ok res"
  show "\<exists>m. relayFetch path res = Inl (Error m) \<and>
           sublist (show_nat (res_status res)) m \<and> sublist (res_text res) m"
    by (rule error_embeds [where p = "path @ '' failed (''" and q = "''): ''"])
       (simp add: relayFetch_def bad)
  show "\<exists>m. getQuote_origin S res = Inl (Error m) \<and>
           sublist (show_nat (res_status res)) m \<and> sublist (S (json_or_empty res)) m"
    by (rule error_embeds [where p = "''Quote failed (''" and q = "''): ''"])
       (simp add: getQuote_origin_def bad)
  show "\<exists>m. execute_origin S res = Inl (Error m) \<and>
           sublist (show_nat (res_status res)) m \<and> sublist (S (json_or_empty res)) m"
    by (rule error_embeds [where p = "''Execute failed (''" and q = "''): ''"])
       (simp add: execute_origin_def bad)
  show "\<exists>m. getStatus_origin S res = Inl (Error m) \<and>
           sublist (show_nat (res_status res)) m \<and> sublist (S (json_or_empty res)) m"
    by (rule error_embeds [where p = "''Status check failed (''" and q = "''): ''"])
       (simp add: getStatus_origin_def bad)
  show "\<exists>m. getStatus_byo S res = Inl (Error m) \<and>
           sublist (show_nat (res_status res)) m \<and> sublist (S (json_or_empty res)) m"
    by (rule error_embeds [where p = "''Status check failed (''" and q = "''): ''"])
       (simp add: getStatus_byo_def bad)
  {
    assume h: "json_or_empty res \<noteq> JNull \<and>
       interpolate Str (msg_of S res (json_or_empty res)) = Inr t"
    show "\<exists>m. getQuote_byo S Str res = Inl (Error m) \<and>
              sublist (show_nat (res_status res)) m \<and> sublist t m"
      by (rule error_embeds [where p = "''Quote failed (''" and q = "''): ''"])
         (simp add: getQuote_byo_def bad h)
    show "\<exists>m. postSignature_byo S Str res = Inl (Error m) \<and>
              sublist (show_nat (res_status res)) m \<and> sublist t m"
      by (rule error_embeds [where p = "''Signature submission failed (''" and q = "''): ''"])
         (simp add: postSignature_byo_def bad h)
  }
qed (auto simp: helper_defs Let_def msg_of_def truthy_property_def split: sum.splits)

text \<open>
  The claim as stated fails in three ways. An ok response whose body is not JSON makes the
  helpers throw, although the response is ok. The message for a response that is not ok and
  whose body is not JSON carries \<^verbatim>\<open>{}\<close> in place of the body. And \<^verbatim>\<open>getQuote\<close> of
  byo-eoa-permit puts the \<^verbatim>\<open>message\<close> of a JSON body in the place of the body.
\<close>

theorem relay_helpers_outcome_counterexample:
  "res_ok ok_not_json \<and>
   getQuote_origin JSON_stringify ok_not_json = Inl (Thrown ''SyntaxError'') \<and>
   getStatus_byo JSON_stringify ok_not_json = Inl (Thrown ''SyntaxError'') \<and>
   relayFetch ''/quote'' ok_not_json = Inl (Thrown ''SyntaxError'') \<and>
   \<not> res_ok bad_gateway \<and>
   getStatus_origin JSON_stringify bad_gateway = Inl (Error ''Status check failed (502): {}'') \<and>
   \<not> sublist (res_text bad_gateway) ''Status check failed (502): {}'' \<and>
   \<not> res_ok bad_request \<and>
   getQuote_byo JSON_stringify toString bad_request = Inl (Error ''Quote failed (400): bad amount'') \<and>
   \<not> sublist (res_text bad_request) ''Quote failed (400): bad amount''"
  by (simp add: helper_defs ok_not_json_def bad_gateway_def bad_request_def json_or_empty_def
        msg_of_def truthy_property_def render_defs sublist_Cons_right)

theorem relay_helpers_outcome_witness:
  \<open>relayFetch ''/execute'' bad_request =
     Inl (Error ''/execute failed (400): {"message":"bad amount","code":7}'') \<and>
   getStatus_origin JSON_stringify bad_request =
     Inl (Error ''Status check failed (400): {"message":"bad amount","code":7}'') \<and>
   getQuote_byo JSON_stringify toString bad_request = Inl (Error ''Quote failed (400): bad amount'') \<and>
   postSignature_byo JSON_stringify toString no_route =
     Inl (Error ''Signature submission failed (404): no route'') \<and>
   getQuote_byo JSON_stringify toString bad_gateway = Inl (Error ''Quote failed (502): {}'') \<and>
   getStatus_origin JSON_stringify ok_json = Inr (JObj [(''status'', JStr ''success'')]) \<and>
   relayFetch ''/execute'' ok_json = Inr (JObj [(''status'', JStr ''success'')])\<close>
proof -
  note t = relay_helpers_outcome [where S = JSON_stringify and Str = toString]
  have ok: "res_ok ok_json"
    and bad: "\<not> res_ok bad_request" "\<not> res_ok no_route" "\<not> res_ok bad_gateway"
    by (simp_all add: ok_json_def bad_request_def no_route_def bad_gateway_def)
  have okv: "getStatus_origin JSON_stringify ok_json = res_json ok_json"
    "relayFetch ''/execute'' ok_json = res_json ok_json"
    using t [where res = ok_json and path = "''/execute''"] ok by blast+
  have b1: "json_or_empty bad_request = JObj [(''message'', JStr ''bad amount''), (''code'', JNum 7)] \<and>
      map_of [(''message'', JStr ''bad amount''), (''code'', JNum 7)] ''message'' = Some (JStr ''bad amount'') \<and>
      ''bad amount'' \<noteq> []"
    by (simp add: bad_request_def json_or_empty_def)
  have q1: "getQuote_byo JSON_stringify toString bad_request =
      Inl (Error (''Quote failed ('' @ show_nat (res_status bad_request) @ ''): '' @ ''bad amount''))"
    using t [where res = bad_request and s = "''bad amount''"
               and kvs = "[(''message'', JStr ''bad amount''), (''code'', JNum 7)]"] bad(1) b1
    by blast
  have b2: "json_or_empty no_route = JObj [(''message'', JStr []), (''error'', JStr ''no route'')] \<and>
      truthy_property (JObj [(''message'', JStr []), (''error'', JStr ''no route'')]) ''message'' = None \<and>
      map_of [(''message'', JStr []), (''error'', JStr ''no route'')] ''error'' = Some (JStr ''no route'') \<and>
      ''no route'' \<noteq> []"
    by (simp add: no_route_def json_or_empty_def truthy_property_def)
  have q2: "postSignature_byo JSON_stringify toString no_route =
      Inl (Error (''Signature submission failed ('' @ show_nat (res_status no_route) @ ''): '' @ ''no route''))"
    using t [where res = no_route and s = "''no route''"
               and kvs = "[(''message'', JStr []), (''error'', JStr ''no route'')]"] bad(2) b2
    by blast
  have b3: "json_or_empty bad_gateway \<noteq> JNull \<and>
      truthy_property (json_or_empty bad_gateway) ''message'' = None \<and>
      truthy_property (json_or_empty bad_gateway) ''error'' = None \<and>
      JSON_stringify (json_or_empty bad_gateway) \<noteq> []"
    by (simp add: bad_gateway_def json_or_empty_def truthy_property_def)
  have q3: "getQuote_byo JSON_stringify toString bad_gateway =
      Inl (Error (''Quote failed ('' @ show_nat (res_status bad_gateway) @ ''): ''
                  @ JSON_stringify (json_or_empty bad_gateway)))"
    using t [where res = bad_gateway] bad(3) b3 by blast
  have f: "\<exists>m. relayFetch ''/execute'' bad_request = Inl (Error m) \<and>
      sublist (show_nat (res_status bad_request)) m \<and> sublist (res_text bad_request) m"
    using t [where res = bad_request and path = "''/execute''"] bad(1) by blast
  have b4: "json_or_empty no_route \<noteq> JNull \<and>
      interpolate toString (msg_of JSON_stringify no_route (json_or_empty no_route)) = Inr ''no route''"
    by (simp add: no_route_def json_or_empty_def msg_of_def truthy_property_def)
  have g: "\<exists>m. getQuote_byo JSON_stringify toString no_route = Inl (Error m) \<and>
      sublist (show_nat (res_status no_route)) m \<and> sublist ''no route'' m"
    using t [where res = no_route and t = "''no route''"] bad(2) b4 by blast
  show ?thesis
    using okv q1 q2 q3 f g
    by (simp add: helper_defs bad_request_def no_route_def bad_gateway_def ok_json_def
          json_or_empty_def quoted_def escape_def render_defs)
qed

end
